theory Spec2Isabelle
  imports Complex_Main "HOL-Library.Monad_Syntax"
begin

section \<open>Python values\<close>

text \<open>
  The records of the pipeline are Python dictionaries. A Python value is modelled by
  \<open>pyval\<close>: a dictionary is an association list in insertion order (string keys),
  \<open>PObj\<close> is any other Python object (a graph, a date), named by its \<open>repr\<close>.
  A float is modelled by the rational it denotes.
\<close>

datatype pyval =
    PNone
  | PBool bool
  | PInt int
  | PFloat rat
  | PStr string
  | PList "pyval list"
  | PDict "(string \<times> pyval) list"
  | PObj string

datatype exn =
    KeyError
  | TypeError
  | AttributeError
  | OSError
  | UnicodeDecodeError
  | ValueError
  | OtherError

text \<open>\<open>d[k] = v\<close> on a dictionary: an existing key keeps its position.\<close>

fun dict_set :: "('k \<times> 'v) list \<Rightarrow> 'k \<Rightarrow> 'v \<Rightarrow> ('k \<times> 'v) list" where
  "dict_set [] k v = [(k, v)]"
| "dict_set ((k', v') # kvs) k v =
     (if k' = k then (k, v) # kvs else (k', v') # dict_set kvs k v)"

text \<open>\<open>d1.update(d2)\<close>.\<close>

definition dict_update :: "('k \<times> 'v) list \<Rightarrow> ('k \<times> 'v) list \<Rightarrow> ('k \<times> 'v) list" where
  "dict_update d1 d2 = foldl (\<lambda>d (k, v). dict_set d k v) d1 d2"

text \<open>\<open>x[k]\<close> with a string key: KeyError on a dictionary without the key, TypeError on
  a value that is no dictionary.\<close>

fun subscript :: "pyval \<Rightarrow> string \<Rightarrow> exn + pyval" where
  "subscript (PDict kvs) k = (case map_of kvs k of None \<Rightarrow> Inl KeyError | Some v \<Rightarrow> Inr v)"
| "subscript _ k = Inl TypeError"

text \<open>Python truthiness (\<open>if x:\<close>, \<open>not x\<close>).\<close>

fun truthy :: "pyval \<Rightarrow> bool" where
  "truthy PNone = False"
| "truthy (PBool b) = b"
| "truthy (PInt i) = (i \<noteq> 0)"
| "truthy (PFloat q) = (q \<noteq> 0)"
| "truthy (PStr s) = (s \<noteq> [])"
| "truthy (PList xs) = (xs \<noteq> [])"
| "truthy (PDict kvs) = (kvs \<noteq> [])"
| "truthy (PObj r) = True"

section \<open>data_validation.py\<close>

subsection \<open>The schema and its validation\<close>

text \<open>
  The keywords the schema of \<open>data_validation.py\<close> uses: \<open>type\<close> (one name or a list
  of names), \<open>properties\<close> and \<open>required\<close>; \<open>additionalProperties: True\<close> constrains
  nothing. \<open>properties\<close> and \<open>required\<close> apply to dictionaries only, and a property
  constrains a key only where the key is present. A \<open>bool\<close> is neither an integer nor
  a number; a float with an integral value is an integer (the library's default draft).
\<close>

datatype jtype = TObject | TArray | TString | TNull | TInteger | TNumber

datatype jschema = Schema (stype: "jtype list") (sproperties: "(string \<times> jschema) list")
  (srequired: "string list")

fun is_type :: "jtype \<Rightarrow> pyval \<Rightarrow> bool" where
  "is_type TObject v = (case v of PDict _ \<Rightarrow> True | _ \<Rightarrow> False)"
| "is_type TArray v = (case v of PList _ \<Rightarrow> True | _ \<Rightarrow> False)"
| "is_type TString v = (case v of PStr _ \<Rightarrow> True | _ \<Rightarrow> False)"
| "is_type TNull v = (case v of PNone \<Rightarrow> True | _ \<Rightarrow> False)"
| "is_type TInteger v = (case v of PInt _ \<Rightarrow> True | PFloat q \<Rightarrow> q \<in> \<int> | _ \<Rightarrow> False)"
| "is_type TNumber v = (case v of PInt _ \<Rightarrow> True | PFloat _ \<Rightarrow> True | _ \<Rightarrow> False)"

fun validates :: "jschema \<Rightarrow> pyval \<Rightarrow> bool"
  and validates_properties :: "(string \<times> jschema) list \<Rightarrow> (string \<times> pyval) list \<Rightarrow> bool" where
  "validates (Schema ts props req) v =
     (list_ex (\<lambda>t. is_type t v) ts \<and>
      (case v of
         PDict kvs \<Rightarrow> validates_properties props kvs \<and> list_all (\<lambda>k. map_of kvs k \<noteq> None) req
       | _ \<Rightarrow> True))"
| "validates_properties [] kvs = True"
| "validates_properties ((k, s) # ps) kvs =
     ((case map_of kvs k of None \<Rightarrow> True | Some x \<Rightarrow> validates s x) \<and>
      validates_properties ps kvs)"

definition typed :: "jtype list \<Rightarrow> jschema" where
  "typed ts = Schema ts [] []"

definition analysis_schema :: jschema where
  "analysis_schema = Schema [TObject]
     [(''classes'', typed [TArray]),
      (''functions'', typed [TArray]),
      (''imports'', typed [TArray]),
      (''lint_results'', typed [TObject]),
      (''docstrings'', typed [TObject]),
      (''comments'', typed [TArray]),
      (''html'', typed [TString]),
      (''tags'', typed [TArray]),
      (''attributes'', typed [TObject]),
      (''entities'', typed [TArray]),
      (''complexity'', typed [TNumber]),
      (''data'', typed [TObject]),
      (''jsx_analysis'', typed [TObject]),
      (''vue_analysis'', typed [TObject])]
     []"

definition metadata_schema :: jschema where
  "metadata_schema = Schema [TObject]
     [(''loc'', typed [TInteger]),
      (''size'', typed [TInteger]),
      (''md5_hash'', typed [TString])]
     [''size'']"

definition schema :: jschema where
  "schema = Schema [TObject]
     [(''file_path'', typed [TString]),
      (''language'', typed [TString]),
      (''content'', typed [TString, TNull]),
      (''analysis'', analysis_schema),
      (''metadata'', metadata_schema)]
     [''file_path'', ''language'', ''content'', ''analysis'', ''metadata'']"

text \<open>
  \<open>validate_json\<close>: True when the schema validates. On a validation error the handler
  formats \<open>data['file_path']\<close> into the log line before it returns False; an exception
  of that lookup is raised inside the \<open>except\<close> clause, where the sibling clause
  \<open>except KeyError\<close> does not catch it.
\<close>

definition validate_json :: "pyval \<Rightarrow> exn + bool" where
  "validate_json data =
     (if validates schema data then
        (case subscript data ''file_path'' of
           Inr _ \<Rightarrow> Inr True
         | Inl KeyError \<Rightarrow> Inr False
         | Inl e \<Rightarrow> Inl e)
      else
        (case subscript data ''file_path'' of
           Inr _ \<Rightarrow> Inr False
         | Inl e \<Rightarrow> Inl e))"

section \<open>Paths\<close>

type_synonym path = string

text \<open>\<open>s.split(sep)\<close> for a one-character separator.\<close>

fun split_on :: "char \<Rightarrow> string \<Rightarrow> string list" where
  "split_on sep [] = [[]]"
| "split_on sep (c # cs) =
     (case split_on sep cs of
        [] \<Rightarrow> [[c]]
      | part # parts \<Rightarrow> if c = sep then [] # part # parts else (c # part) # parts)"

fun join_with :: "string \<Rightarrow> string list \<Rightarrow> string" where
  "join_with sep [] = []"
| "join_with sep [x] = x"
| "join_with sep (x # y # ys) = x @ sep @ join_with sep (y # ys)"

text \<open>\<open>s.endswith(t)\<close> and \<open>s.startswith(t)\<close>.\<close>

definition endswith :: "string \<Rightarrow> string \<Rightarrow> bool" where
  "endswith s t = (length t \<le> length s \<and> drop (length s - length t) s = t)"

definition startswith :: "string \<Rightarrow> string \<Rightarrow> bool" where
  "startswith s t = (take (length t) s = t)"

text \<open>
  The pure paths of \<open>pathlib\<close> (POSIX flavour): the root is \<open>/\<close>, or \<open>//\<close> for
  exactly two leading slashes; empty components and \<open>.\<close> components are dropped.
\<close>

definition path_root :: "path \<Rightarrow> string" where
  "path_root p =
     (if startswith p ''//'' \<and> \<not> startswith p ''///'' then ''//''
      else if startswith p ''/'' then ''/'' else [])"

definition path_parts :: "path \<Rightarrow> string list" where
  "path_parts p = filter (\<lambda>x. x \<noteq> [] \<and> x \<noteq> ''.'') (split_on CHR ''/'' p)"

definition path_str :: "string \<Rightarrow> string list \<Rightarrow> path" where
  "path_str anchor parts =
     (if anchor = [] \<and> parts = [] then ''.'' else anchor @ join_with ''/'' parts)"

text \<open>\<open>str(Path(p).parent)\<close>.\<close>

definition parent :: "path \<Rightarrow> path" where
  "parent p = path_str (path_root p) (butlast (path_parts p))"

text \<open>\<open>s.rfind('.')\<close> as an option.\<close>

definition rfind_dot :: "string \<Rightarrow> nat option" where
  "rfind_dot s =
     (case filter (\<lambda>i. s ! i = CHR ''.'') (rev [0..<length s]) of
        [] \<Rightarrow> None | i # _ \<Rightarrow> Some i)"

text \<open>\<open>Path(p).suffix\<close>: the last dot of the final component, when it is neither its
  first nor its last character.\<close>

definition suffix_of :: "path \<Rightarrow> string" where
  "suffix_of p =
     (case path_parts p of
        [] \<Rightarrow> []
      | parts \<Rightarrow>
          (let name = last parts in
           case rfind_dot name of
             None \<Rightarrow> []
           | Some i \<Rightarrow> if 0 < i \<and> i < length name - 1 then drop i name else []))"

text \<open>\<open>os.path.dirname\<close>.\<close>

definition dirname :: "path \<Rightarrow> path" where
  "dirname p =
     (let n = length (dropWhile (\<lambda>c. c \<noteq> CHR ''/'') (rev p));
          head = take n p
      in if head \<noteq> [] \<and> \<not> list_all (\<lambda>c. c = CHR ''/'') head
         then rev (dropWhile (\<lambda>c. c = CHR ''/'') (rev head)) else head)"

text \<open>\<open>os.path.normpath\<close>, \<open>os.path.abspath\<close> (against the working directory) and
  \<open>os.path.relpath\<close>, which raises ValueError on an empty path.\<close>

fun norm_comps :: "bool \<Rightarrow> string list \<Rightarrow> string list \<Rightarrow> string list" where
  "norm_comps absolute acc [] = rev acc"
| "norm_comps absolute acc (c # cs) =
     (if c = [] \<or> c = ''.'' then norm_comps absolute acc cs
      else if c \<noteq> ''..'' \<or> (\<not> absolute \<and> acc = []) \<or> (acc \<noteq> [] \<and> hd acc = ''..'')
        then norm_comps absolute (c # acc) cs
      else norm_comps absolute (tl acc) cs)"

definition normpath :: "path \<Rightarrow> path" where
  "normpath p =
     (if p = [] then ''.''
      else let anchor = path_root p;
               comps = norm_comps (anchor \<noteq> []) [] (split_on CHR ''/'' p);
               q = anchor @ join_with ''/'' comps
           in if q = [] then ''.'' else q)"

definition abspath :: "path \<Rightarrow> path \<Rightarrow> path" where
  "abspath cwd p =
     (if startswith p ''/'' then normpath p
      else normpath (if p = [] then cwd
                     else if cwd = [] \<or> endswith cwd ''/'' then cwd @ p
                     else cwd @ ''/'' @ p))"

fun common_prefix_length :: "'a list \<Rightarrow> 'a list \<Rightarrow> nat" where
  "common_prefix_length (x # xs) (y # ys) = (if x = y then Suc (common_prefix_length xs ys) else 0)"
| "common_prefix_length _ _ = 0"

definition relpath :: "path \<Rightarrow> path \<Rightarrow> path \<Rightarrow> exn + path" where
  "relpath cwd p start =
     (if p = [] then Inl ValueError
      else let start_list = filter (\<lambda>x. x \<noteq> []) (split_on CHR ''/'' (abspath cwd start));
               path_list = filter (\<lambda>x. x \<noteq> []) (split_on CHR ''/'' (abspath cwd p));
               i = common_prefix_length start_list path_list;
               rel_list = replicate (length start_list - i) ''..'' @ drop i path_list
           in if rel_list = [] then Inr ''.'' else Inr (join_with ''/'' rel_list))"

section \<open>The world outside the program\<close>

text \<open>
  What the program reads from the file system and what the libraries and tools it calls
  answer is a parameter of the model: one record of functions, fixed for a run. A call
  that can raise answers with a sum (\<open>Inl\<close> the exception) or an option (\<open>None\<close>: it
  raised). \<open>OSError\<close> stands for \<open>OSError\<close> (\<open>IOError\<close>) and its subclasses.
\<close>

record world =
  cwd :: path
  path_exists :: "path \<Rightarrow> bool"
  os_walk :: "path \<Rightarrow> path list"
  rglob_files :: "path \<Rightarrow> path list option"
  filetype_guess :: "path \<Rightarrow> exn + string option"
  magic_from_file :: "path \<Rightarrow> exn + string"
  read_utf8 :: "path \<Rightarrow> exn + string"
  getsize :: "path \<Rightarrow> int option"
  makedirs_ok :: "path \<Rightarrow> bool"
  can_append :: "path \<Rightarrow> bool"
  log_file_ok :: bool
  cache_file_ok :: bool
  lexer_name :: "path \<Rightarrow> string \<Rightarrow> string option"
  nlp_ents :: "string \<Rightarrow> (string \<times> string) list option"
  run_process :: "string list \<Rightarrow> (int \<times> string \<times> string) option"
  json_loads :: "string \<Rightarrow> pyval option"
  yaml_safe_load :: "string \<Rightarrow> pyval option"
  markdown_html :: "string \<Rightarrow> string option"
  md5_hexdigest :: "string \<Rightarrow> string"
  py_parse :: "string \<Rightarrow> (pyval list \<times> (string \<times> pyval) list \<times> pyval list) option"
  py_build :: "string \<Rightarrow> (pyval list \<times> pyval list) option"
  cc_visit :: "string \<Rightarrow> pyval option option"
  html_parse :: "string \<Rightarrow> (pyval list \<times> (string \<times> pyval) list \<times> pyval list) option"
  css_parse :: "string \<Rightarrow> (pyval list \<times> (string \<times> pyval) list) option"
  js_parse :: "string \<Rightarrow> (pyval list \<times> pyval list) option"
  js_build :: "string \<Rightarrow> pyval list option"
  xml_parse :: "string \<Rightarrow> (pyval list \<times> (string \<times> pyval) list) option"
  documentation_links :: "(string \<times> string) list option"

section \<open>file\_handling.py\<close>

definition is_oserror :: "exn \<Rightarrow> bool" where
  "is_oserror e = (e = OSError)"

text \<open>\<open>guess_file_type\<close>: the MIME type of \<open>filetype.guess\<close>, else of \<open>magic\<close>; None
  when neither gives one or an \<open>IOError\<close> is raised; other exceptions propagate.\<close>

definition guess_file_type :: "world \<Rightarrow> path \<Rightarrow> exn + string option" where
  "guess_file_type w file_path =
     (case filetype_guess w file_path of
        Inl e \<Rightarrow> if is_oserror e then Inr None else Inl e
      | Inr kind \<Rightarrow>
          if kind = None \<or> kind = Some [] then
            (case magic_from_file w file_path of
               Inl e \<Rightarrow> if is_oserror e then Inr None else Inl e
             | Inr mime_type \<Rightarrow> if mime_type = [] then Inr None else Inr (Some mime_type))
          else Inr kind)"

definition text_types :: "string list" where
  "text_types = [''text/plain'', ''text/html'', ''text/css'', ''text/javascript'',
     ''application/json'', ''application/xml'']"

text \<open>\<open>is_text_file\<close> catches every exception and answers False.\<close>

definition is_text_file :: "world \<Rightarrow> path \<Rightarrow> bool" where
  "is_text_file w file_path =
     (case guess_file_type w file_path of
        Inl e \<Rightarrow> False
      | Inr None \<Rightarrow> False
      | Inr (Some file_type) \<Rightarrow> file_type \<in> set text_types)"

text \<open>\<open>is_binary_file\<close>: its own \<open>except\<close> clause (answering True) is never reached,
  since \<open>is_text_file\<close> raises nothing.\<close>

definition is_binary_file :: "world \<Rightarrow> path \<Rightarrow> bool" where
  "is_binary_file w file_path = (\<not> is_text_file w file_path)"

text \<open>\<open>read_text_file\<close>: None on \<open>IOError\<close>, \<open>PermissionError\<close> and
  \<open>UnicodeDecodeError\<close>; other exceptions propagate.\<close>

definition read_text_file :: "world \<Rightarrow> path \<Rightarrow> exn + string option" where
  "read_text_file w file_path =
     (case read_utf8 w file_path of
        Inr content \<Rightarrow> Inr (Some content)
      | Inl e \<Rightarrow> if is_oserror e \<or> e = UnicodeDecodeError then Inr None else Inl e)"

definition async_read :: "world \<Rightarrow> path \<Rightarrow> exn + string option" where
  "async_read w file_path =
     (if is_binary_file w file_path then Inr None else read_text_file w file_path)"

text \<open>\<open>str.lower\<close> on ASCII letters.\<close>

definition lower_char :: "char \<Rightarrow> char" where
  "lower_char c =
     (let n = (of_char c :: nat) in if 65 \<le> n \<and> n \<le> 90 then char_of (n + 32) else c)"

text \<open>\<open>guess_language\<close>: the lower-cased name of the lexer found for the file name or,
  failing that, guessed from the content; None on any exception.\<close>

definition guess_language :: "world \<Rightarrow> path \<Rightarrow> string option" where
  "guess_language w file_path =
     (case read_utf8 w file_path of
        Inl e \<Rightarrow> None
      | Inr content \<Rightarrow>
          (case lexer_name w file_path content of
             None \<Rightarrow> None
           | Some language \<Rightarrow> Some (map lower_char language)))"

section \<open>Effects\<close>

text \<open>
  What a task does to the outside is a list of events, in the order of the calls: the
  dispatch to a handler, the run of an external process, a line appended to a JSON-Lines
  file, an error line of the log (named by the file it is about).
\<close>

datatype handler =
    PythonFile | JavascriptFile | HtmlFile | CssFile | JsonFile | MarkdownFile | TextFile
  | TypescriptFile | JsxFile | VueFile | YamlFile | XmlFile | ImageFile | DocumentFile
  | DefaultHandler

datatype event =
    HandlerCalled handler path
  | ProcessRun "string list"
  | Saved path pyval
  | ErrorLogged path

section \<open>utilities.py: writing records, counts\<close>

text \<open>
  \<open>save_to_jsonl\<close> creates the directory of the output file and appends one line; any
  \<open>OSError\<close> is caught and logged. \<open>os.makedirs('')\<close> raises \<open>FileNotFoundError\<close>, so
  an output file without a directory part is never written.
\<close>

definition save_to_jsonl :: "world \<Rightarrow> pyval \<Rightarrow> path \<Rightarrow> event list" where
  "save_to_jsonl w file_data output_file =
     (if dirname output_file \<noteq> [] \<and> makedirs_ok w (dirname output_file) \<and> can_append w output_file
      then [Saved output_file file_data]
      else [ErrorLogged output_file])"

definition bind_exn :: "exn + 'a \<Rightarrow> ('a \<Rightarrow> exn + 'b) \<Rightarrow> exn + 'b" where
  "bind_exn m f = (case m of Inl e \<Rightarrow> Inl e | Inr x \<Rightarrow> f x)"

text \<open>\<open>len(x)\<close>, \<open>x[k] = v\<close> and \<open>x.get(k, default)\<close>.\<close>

fun py_len :: "pyval \<Rightarrow> exn + nat" where
  "py_len (PStr s) = Inr (length s)"
| "py_len (PList xs) = Inr (length xs)"
| "py_len (PDict kvs) = Inr (length kvs)"
| "py_len _ = Inl TypeError"

fun set_item :: "pyval \<Rightarrow> string \<Rightarrow> pyval \<Rightarrow> exn + pyval" where
  "set_item (PDict kvs) k v = Inr (PDict (dict_set kvs k v))"
| "set_item _ k v = Inl TypeError"

fun get_default :: "pyval \<Rightarrow> string \<Rightarrow> pyval \<Rightarrow> exn + pyval" where
  "get_default (PDict kvs) k d = (case map_of kvs k of None \<Rightarrow> Inr d | Some v \<Rightarrow> Inr v)"
| "get_default _ k d = Inl AttributeError"

text \<open>\<open>calculate_function_count\<close>: every exception is caught and the answer is 0.\<close>

definition calculate_function_count :: "pyval \<Rightarrow> int" where
  "calculate_function_count file_data =
     (case subscript file_data ''language'' of
        Inl e \<Rightarrow> 0
      | Inr language \<Rightarrow>
          if language = PStr ''Python'' then
            (case bind_exn (subscript file_data ''analysis'')
                    (\<lambda>a. bind_exn (subscript a ''functions'') py_len) of
               Inl e \<Rightarrow> 0 | Inr n \<Rightarrow> int n)
          else if language = PStr ''JavaScript'' then
            (case bind_exn (subscript file_data ''analysis'')
                    (\<lambda>a. bind_exn (subscript a ''functions'') py_len) of
               Inl e \<Rightarrow> 0 | Inr n \<Rightarrow> int n)
          else 0)"

text \<open>A number as Python compares and divides it; None for a value that is no number.\<close>

fun num_value :: "pyval \<Rightarrow> rat option" where
  "num_value (PInt n) = Some (of_int n)"
| "num_value (PFloat q) = Some q"
| "num_value (PBool b) = Some (if b then 1 else 0)"
| "num_value _ = None"

text \<open>\<open>calculate_comment_density\<close>: the float \<open>comment_count / loc\<close> for a positive
  \<open>loc\<close>, else the integer 0; every exception is caught and the answer is 0.\<close>

definition calculate_comment_density :: "pyval \<Rightarrow> pyval" where
  "calculate_comment_density file_data =
     (case bind_exn (subscript file_data ''metadata'') (\<lambda>m. subscript m ''loc'') of
        Inl e \<Rightarrow> PInt 0
      | Inr loc \<Rightarrow>
          (case bind_exn (subscript file_data ''analysis'')
                  (\<lambda>a. bind_exn (get_default a ''comments'' (PList [])) py_len) of
             Inl e \<Rightarrow> PInt 0
           | Inr comment_count \<Rightarrow>
               (case num_value loc of
                  None \<Rightarrow> PInt 0
                | Some q \<Rightarrow> if q > 0 then PFloat (of_nat comment_count / q) else PInt 0)))"

section \<open>analysis.py: the handlers\<close>

text \<open>
  A handler answers the events it caused and the record it returns (None when it
  returns None). Each handler wraps its body in \<open>try ... except Exception\<close>, logs the
  error and returns None, so inside a handler a raised exception is the \<open>None\<close> of the
  option monad. The parsers, the entity extractor and the linters are the world's.
\<close>

definition ent_dicts :: "(string \<times> string) list \<Rightarrow> pyval" where
  "ent_dicts ents = PList (map (\<lambda>(t, l). PDict [(''text'', PStr t), (''label'', PStr l)]) ents)"

text \<open>\<open>len(content.split('\n'))\<close>.\<close>

definition loc_of :: "string \<Rightarrow> int" where
  "loc_of content = int (length (split_on (CHR 0x0A) content))"

definition lang_val :: "string option \<Rightarrow> pyval" where
  "lang_val language = (case language of None \<Rightarrow> PNone | Some l \<Rightarrow> PStr l)"

definition content_val :: "string option \<Rightarrow> pyval" where
  "content_val content = (case content of None \<Rightarrow> PNone | Some c \<Rightarrow> PStr c)"

text \<open>The dictionary every handler builds.\<close>

definition file_record ::
  "path \<Rightarrow> pyval \<Rightarrow> pyval \<Rightarrow> (string \<times> pyval) list \<Rightarrow> (string \<times> pyval) list \<Rightarrow> string \<Rightarrow> pyval" where
  "file_record file_path language content analysis metadata module_path =
     PDict [(''file_path'', PStr file_path), (''language'', language), (''content'', content),
            (''analysis'', PDict analysis), (''metadata'', PDict metadata),
            (''module_path'', PStr module_path)]"

text \<open>\<open>await async_read(file_path)\<close> inside a handler's \<open>try\<close>.\<close>

definition read_content :: "world \<Rightarrow> path \<Rightarrow> string option option" where
  "read_content w file_path = (case async_read w file_path of Inl e \<Rightarrow> None | Inr c \<Rightarrow> Some c)"

text \<open>The tail of the validating handlers: \<open>if validate_json(data)\<close>, save to
  \<open>{module_path}.jsonl\<close> and return the record, else log and return None.\<close>

definition validate_and_save :: "world \<Rightarrow> path \<Rightarrow> string \<Rightarrow> pyval \<Rightarrow> event list \<times> pyval option" where
  "validate_and_save w file_path module_path data =
     (case validate_json data of
        Inl e \<Rightarrow> ([ErrorLogged file_path], None)
      | Inr ok \<Rightarrow>
          if ok then (save_to_jsonl w data (module_path @ ''.jsonl''), Some data)
          else ([ErrorLogged file_path], None))"

text \<open>\<open>json.loads(lint_results.stdout) if lint_results.returncode == 0 else None\<close>.\<close>

definition lint_value :: "world \<Rightarrow> int \<Rightarrow> string \<Rightarrow> pyval option" where
  "lint_value w returncode stdout = (if returncode = 0 then json_loads w stdout else Some PNone)"

definition process_python_file ::
  "world \<Rightarrow> path \<Rightarrow> string \<Rightarrow> string option \<Rightarrow> event list \<times> pyval option" where
  "process_python_file w file_path module_path language =
     (case do {
         content_opt \<leftarrow> read_content w file_path;
         content \<leftarrow> content_opt;
         (imports, docstrings, comments) \<leftarrow> py_parse w content;
         entities \<leftarrow> nlp_ents w content;
         complexity \<leftarrow> cc_visit w content;
         Some (content, imports, docstrings, comments, entities, complexity) } of
        None \<Rightarrow> ([ErrorLogged file_path], None)
      | Some (content, imports, docstrings, comments, entities, complexity) \<Rightarrow>
          (let cmd = [''pylint'', ''--output-format=json'', file_path] in
           case do {
               (returncode, stdout, stderr) \<leftarrow> run_process w cmd;
               (classes, functions) \<leftarrow> py_build w content;
               total_complexity \<leftarrow> complexity;
               lint_results \<leftarrow> lint_value w returncode stdout;
               file_size \<leftarrow> getsize w file_path;
               Some (file_record file_path (lang_val language) (PStr content)
                 [(''classes'', PList classes), (''functions'', PList functions),
                  (''imports'', PList imports), (''docstrings'', PDict docstrings),
                  (''comments'', PList comments), (''entities'', ent_dicts entities),
                  (''complexity'', total_complexity), (''lint_results'', lint_results)]
                 [(''loc'', PInt (loc_of content)), (''size'', PInt file_size)] module_path) } of
             None \<Rightarrow> ([ProcessRun cmd, ErrorLogged file_path], None)
           | Some data \<Rightarrow>
               (case validate_and_save w file_path module_path data of
                  (evs, r) \<Rightarrow> (ProcessRun cmd # evs, r))))"

definition process_html_file ::
  "world \<Rightarrow> path \<Rightarrow> string \<Rightarrow> string option \<Rightarrow> event list \<times> pyval option" where
  "process_html_file w file_path module_path language =
     (case do {
         content_opt \<leftarrow> read_content w file_path;
         content \<leftarrow> content_opt;
         (tags, attributes, comments) \<leftarrow> html_parse w content;
         entities \<leftarrow> nlp_ents w content;
         file_size \<leftarrow> getsize w file_path;
         Some (file_record file_path (lang_val language) (PStr content)
           [(''tags'', PList tags), (''attributes'', PDict attributes), (''docstrings'', PDict []),
            (''comments'', PList comments), (''entities'', ent_dicts entities)]
           [(''loc'', PInt (loc_of content)), (''size'', PInt file_size)] module_path) } of
        None \<Rightarrow> ([ErrorLogged file_path], None)
      | Some data \<Rightarrow> validate_and_save w file_path module_path data)"

definition process_css_file ::
  "world \<Rightarrow> path \<Rightarrow> string \<Rightarrow> string option \<Rightarrow> event list \<times> pyval option" where
  "process_css_file w file_path module_path language =
     (case do {
         content_opt \<leftarrow> read_content w file_path;
         content \<leftarrow> content_opt;
         (rules, properties) \<leftarrow> css_parse w content;
         entities \<leftarrow> nlp_ents w content;
         Some (content, rules, properties, entities) } of
        None \<Rightarrow> ([ErrorLogged file_path], None)
      | Some (content, rules, properties, entities) \<Rightarrow>
          (let cmd = [''stylelint'', ''--formatter=json'', file_path] in
           case do {
               (returncode, stdout, stderr) \<leftarrow> run_process w cmd;
               lint_results \<leftarrow> lint_value w returncode stdout;
               file_size \<leftarrow> getsize w file_path;
               Some (file_record file_path (lang_val language) (PStr content)
                 [(''rules'', PList rules), (''properties'', PDict properties),
                  (''entities'', ent_dicts entities), (''lint_results'', lint_results)]
                 [(''loc'', PInt (loc_of content)), (''size'', PInt file_size)] module_path) } of
             None \<Rightarrow> ([ProcessRun cmd, ErrorLogged file_path], None)
           | Some data \<Rightarrow>
               (case validate_and_save w file_path module_path data of
                  (evs, r) \<Rightarrow> (ProcessRun cmd # evs, r))))"

definition process_javascript_file ::
  "world \<Rightarrow> path \<Rightarrow> string \<Rightarrow> string option \<Rightarrow> event list \<times> pyval option" where
  "process_javascript_file w file_path module_path language =
     (case do {
         content_opt \<leftarrow> read_content w file_path;
         content \<leftarrow> content_opt;
         (imports, comments) \<leftarrow> js_parse w content;
         entities \<leftarrow> nlp_ents w content;
         Some (content, imports, comments, entities) } of
        None \<Rightarrow> ([ErrorLogged file_path], None)
      | Some (content, imports, comments, entities) \<Rightarrow>
          (let cmd = [''eslint'', ''--format=json'', file_path] in
           case do {
               (returncode, stdout, stderr) \<leftarrow> run_process w cmd;
               functions \<leftarrow> js_build w content;
               lint_results \<leftarrow> lint_value w returncode stdout;
               file_size \<leftarrow> getsize w file_path;
               Some (file_record file_path (lang_val language) (PStr content)
                 [(''functions'', PList functions), (''imports'', PList imports),
                  (''comments'', PList comments), (''entities'', ent_dicts entities),
                  (''lint_results'', lint_results)]
                 [(''loc'', PInt (loc_of content)), (''size'', PInt file_size)] module_path) } of
             None \<Rightarrow> ([ProcessRun cmd, ErrorLogged file_path], None)
           | Some data \<Rightarrow>
               (case validate_and_save w file_path module_path data of
                  (evs, r) \<Rightarrow> (ProcessRun cmd # evs, r))))"

text \<open>The handlers for JSON, Markdown, text, YAML and XML return the record without
  validating or saving it.\<close>

definition process_json_file ::
  "world \<Rightarrow> path \<Rightarrow> string \<Rightarrow> string option \<Rightarrow> event list \<times> pyval option" where
  "process_json_file w file_path module_path language =
     (case do {
         content_opt \<leftarrow> read_content w file_path;
         content \<leftarrow> content_opt;
         data_json \<leftarrow> json_loads w content;
         entities \<leftarrow> nlp_ents w content;
         file_size \<leftarrow> getsize w file_path;
         Some (file_record file_path (lang_val language) (PStr content)
           [(''data'', data_json), (''entities'', ent_dicts entities)]
           [(''loc'', PInt (loc_of content)), (''size'', PInt file_size)] module_path) } of
        None \<Rightarrow> ([ErrorLogged file_path], None)
      | Some data \<Rightarrow> ([], Some data))"

definition process_markdown_file ::
  "world \<Rightarrow> path \<Rightarrow> string \<Rightarrow> string option \<Rightarrow> event list \<times> pyval option" where
  "process_markdown_file w file_path module_path language =
     (case do {
         content_opt \<leftarrow> read_content w file_path;
         content \<leftarrow> content_opt;
         html \<leftarrow> markdown_html w content;
         entities \<leftarrow> nlp_ents w content;
         file_size \<leftarrow> getsize w file_path;
         Some (file_record file_path (lang_val language) (PStr content)
           [(''html'', PStr html), (''entities'', ent_dicts entities)]
           [(''loc'', PInt (loc_of content)), (''size'', PInt file_size)] module_path) } of
        None \<Rightarrow> ([ErrorLogged file_path], None)
      | Some data \<Rightarrow> ([], Some data))"

definition process_text_file ::
  "world \<Rightarrow> path \<Rightarrow> string \<Rightarrow> string option \<Rightarrow> event list \<times> pyval option" where
  "process_text_file w file_path module_path language =
     (case do {
         content_opt \<leftarrow> read_content w file_path;
         content \<leftarrow> content_opt;
         entities \<leftarrow> nlp_ents w content;
         file_size \<leftarrow> getsize w file_path;
         Some (file_record file_path (lang_val language) (PStr content)
           [(''entities'', ent_dicts entities)]
           [(''loc'', PInt (loc_of content)), (''size'', PInt file_size)] module_path) } of
        None \<Rightarrow> ([ErrorLogged file_path], None)
      | Some data \<Rightarrow> ([], Some data))"

definition process_yaml_file ::
  "world \<Rightarrow> path \<Rightarrow> string \<Rightarrow> string option \<Rightarrow> event list \<times> pyval option" where
  "process_yaml_file w file_path module_path language =
     (case do {
         content_opt \<leftarrow> read_content w file_path;
         content \<leftarrow> content_opt;
         data_yaml \<leftarrow> yaml_safe_load w content;
         entities \<leftarrow> nlp_ents w content;
         file_size \<leftarrow> getsize w file_path;
         Some (file_record file_path (lang_val language) (PStr content)
           [(''data'', data_yaml), (''entities'', ent_dicts entities)]
           [(''loc'', PInt (loc_of content)), (''size'', PInt file_size)] module_path) } of
        None \<Rightarrow> ([ErrorLogged file_path], None)
      | Some data \<Rightarrow> ([], Some data))"

definition process_xml_file ::
  "world \<Rightarrow> path \<Rightarrow> string \<Rightarrow> string option \<Rightarrow> event list \<times> pyval option" where
  "process_xml_file w file_path module_path language =
     (case do {
         content_opt \<leftarrow> read_content w file_path;
         content \<leftarrow> content_opt;
         (tags, attributes) \<leftarrow> xml_parse w content;
         entities \<leftarrow> nlp_ents w content;
         file_size \<leftarrow> getsize w file_path;
         Some (file_record file_path (lang_val language) (PStr content)
           [(''tags'', PList tags), (''attributes'', PDict attributes),
            (''entities'', ent_dicts entities)]
           [(''loc'', PInt (loc_of content)), (''size'', PInt file_size)] module_path) } of
        None \<Rightarrow> ([ErrorLogged file_path], None)
      | Some data \<Rightarrow> ([], Some data))"

text \<open>\<open>process_image_file\<close> takes two parameters only.\<close>

definition process_image_file :: "world \<Rightarrow> path \<Rightarrow> string \<Rightarrow> event list \<times> pyval option" where
  "process_image_file w file_path module_path =
     (case getsize w file_path of
        None \<Rightarrow> ([ErrorLogged file_path], None)
      | Some file_size \<Rightarrow>
          ([], Some (file_record file_path (PStr ''image'') PNone [] [(''size'', PInt file_size)]
                  module_path)))"

text \<open>\<open>process_document_file\<close>: no entities for a content that is None or empty.\<close>

definition process_document_file ::
  "world \<Rightarrow> path \<Rightarrow> string \<Rightarrow> string option \<Rightarrow> event list \<times> pyval option" where
  "process_document_file w file_path module_path language =
     (case do {
         content \<leftarrow> read_content w file_path;
         entities \<leftarrow> (if content \<noteq> None \<and> content \<noteq> Some [] then nlp_ents w (the content)
                      else Some []);
         file_size \<leftarrow> getsize w file_path;
         Some (file_record file_path (lang_val language) (content_val content)
           [(''entities'', ent_dicts entities)]
           [(''size'', PInt file_size)] module_path) } of
        None \<Rightarrow> ([ErrorLogged file_path], None)
      | Some data \<Rightarrow> ([], Some data))"

text \<open>The TypeScript, JSX and Vue handlers return None, with a warning only, for a
  content that is None.\<close>

definition process_typescript_file ::
  "world \<Rightarrow> path \<Rightarrow> string \<Rightarrow> string option \<Rightarrow> event list \<times> pyval option" where
  "process_typescript_file w file_path module_path language =
     (case read_content w file_path of
        None \<Rightarrow> ([ErrorLogged file_path], None)
      | Some None \<Rightarrow> ([], None)
      | Some (Some content) \<Rightarrow>
          (case do {
              (imports, comments) \<leftarrow> js_parse w content;
              complexity \<leftarrow> cc_visit w content;
              entities \<leftarrow> nlp_ents w content;
              Some (imports, comments, complexity, entities) } of
             None \<Rightarrow> ([ErrorLogged file_path], None)
           | Some (imports, comments, complexity, entities) \<Rightarrow>
               (let cmd = [''tslint'', ''--format=json'', file_path] in
                case do {
                    (returncode, stdout, stderr) \<leftarrow> run_process w cmd;
                    functions \<leftarrow> js_build w content;
                    total_complexity \<leftarrow> complexity;
                    lint_results \<leftarrow> lint_value w returncode stdout;
                    file_size \<leftarrow> getsize w file_path;
                    Some (file_record file_path (lang_val language) (PStr content)
                      [(''functions'', PList functions), (''imports'', PList imports),
                       (''comments'', PList comments), (''complexity'', total_complexity),
                       (''docstrings'', PDict []), (''entities'', ent_dicts entities),
                       (''lint_results'', lint_results)]
                      [(''loc'', PInt (loc_of content)), (''size'', PInt file_size)] module_path) } of
                  None \<Rightarrow> ([ProcessRun cmd, ErrorLogged file_path], None)
                | Some data \<Rightarrow>
                    (case validate_and_save w file_path module_path data of
                       (evs, r) \<Rightarrow> (ProcessRun cmd # evs, r)))))"

text \<open>The body shared by \<open>process_jsx_file\<close> and \<open>process_vue_file\<close>, which differ in
  the script they run and the key the result is stored under.\<close>

definition process_node_file ::
  "string \<Rightarrow> string \<Rightarrow> world \<Rightarrow> path \<Rightarrow> string \<Rightarrow> string option \<Rightarrow> event list \<times> pyval option" where
  "process_node_file script key w file_path module_path language =
     (case read_content w file_path of
        None \<Rightarrow> ([ErrorLogged file_path], None)
      | Some None \<Rightarrow> ([], None)
      | Some (Some content) \<Rightarrow>
          (let cmd = [''node'', script, file_path] in
           case run_process w cmd of
             None \<Rightarrow> ([ProcessRun cmd, ErrorLogged file_path], None)
           | Some (returncode, stdout, stderr) \<Rightarrow>
               if returncode \<noteq> 0 then ([ProcessRun cmd, ErrorLogged file_path], None)
               else
                 (case do {
                     analysis \<leftarrow> json_loads w stdout;
                     entities \<leftarrow> nlp_ents w content;
                     file_size \<leftarrow> getsize w file_path;
                     Some (file_record file_path (lang_val language) (PStr content)
                       [(''entities'', ent_dicts entities), (key, analysis)]
                       [(''loc'', PInt (loc_of content)), (''size'', PInt file_size)] module_path) } of
                    None \<Rightarrow> ([ProcessRun cmd, ErrorLogged file_path], None)
                  | Some data \<Rightarrow>
                      (case validate_and_save w file_path module_path data of
                         (evs, r) \<Rightarrow> (ProcessRun cmd # evs, r)))))"

definition process_jsx_file ::
  "world \<Rightarrow> path \<Rightarrow> string \<Rightarrow> string option \<Rightarrow> event list \<times> pyval option" where
  "process_jsx_file = process_node_file ''parse_jsx.js'' ''jsx_analysis''"

definition process_vue_file ::
  "world \<Rightarrow> path \<Rightarrow> string \<Rightarrow> string option \<Rightarrow> event list \<times> pyval option" where
  "process_vue_file = process_node_file ''parse_vue.js'' ''vue_analysis''"

text \<open>\<open>default_handler\<close>: the minimal record, not validated; for a content that is None
  the entities are empty, and \<open>loc\<close> is 0 for a content that is None or empty.\<close>

definition default_handler ::
  "world \<Rightarrow> path \<Rightarrow> string \<Rightarrow> string option \<Rightarrow> event list \<times> pyval option" where
  "default_handler w file_path module_path language =
     (case do {
         content \<leftarrow> read_content w file_path;
         entities \<leftarrow> (case content of None \<Rightarrow> Some [] | Some c \<Rightarrow> nlp_ents w c);
         file_size \<leftarrow> getsize w file_path;
         Some (file_record file_path (lang_val language) (content_val content)
           [(''entities'', ent_dicts entities)]
           [(''loc'', PInt (case content of None \<Rightarrow> 0
                           | Some c \<Rightarrow> if c = [] then 0 else loc_of c)),
            (''size'', PInt file_size)] module_path) } of
        None \<Rightarrow> ([ErrorLogged file_path], None)
      | Some data \<Rightarrow> ([], Some data))"

section \<open>main\_controller.py: dispatch and the per-file task\<close>

text \<open>The table, in the order of the source (\<open>.vue\<close> stands twice, with one value).\<close>

definition FILE_TYPE_HANDLERS :: "(string \<times> handler) list" where
  "FILE_TYPE_HANDLERS =
    [(''.py'', PythonFile), (''.js'', JavascriptFile), (''.html'', HtmlFile),
     (''.css'', CssFile), (''.json'', JsonFile), (''.md'', MarkdownFile),
     (''.txt'', TextFile), (''.pyi'', PythonFile), (''.ts'', TypescriptFile),
     (''.tsx'', TypescriptFile), (''.jsx'', JsxFile), (''.mjs'', JavascriptFile),
     (''.cjs'', JavascriptFile), (''.vue'', VueFile), (''.yaml'', YamlFile),
     (''.yml'', YamlFile), (''.xml'', XmlFile), (''.png'', ImageFile),
     (''.jpg'', ImageFile), (''.jpeg'', ImageFile), (''.gif'', ImageFile),
     (''.bmp'', ImageFile), (''.ico'', ImageFile), (''.svg'', ImageFile),
     (''.doc'', DocumentFile), (''.pdf'', DocumentFile), (''.odt'', DocumentFile),
     (''.docx'', DocumentFile), (''.xlsx'', DocumentFile), (''.ppt'', DocumentFile),
     (''.pptx'', DocumentFile), (''.vue'', VueFile), (''.scss'', CssFile),
     (''.sass'', CssFile), (''.node'', JavascriptFile), (''.mts'', TypescriptFile),
     (''.coffee'', JavascriptFile), (''.applescript'', TextFile), (''.c'', TextFile),
     (''.jinja2'', TextFile), (''.h'', TextFile), (''.py-tpl'', PythonFile),
     (''.cpp'', TextFile), (''.hpp'', TextFile), (''.asm'', TextFile),
     (''.pyx'', PythonFile), (''.f'', TextFile), (''.template'', TextFile),
     (''.keep'', TextFile), (''.R'', TextFile), (''.go'', TextFile), (''.rs'', TextFile),
     (''.pyw'', PythonFile), (''.misc'', TextFile), (''.message'', TextFile),
     (''.no_trailing_newline'', TextFile), (''.g'', TextFile), (''.csh'', TextFile),
     (''.asp'', TextFile), (''.htm'', HtmlFile), (''.in'', TextFile)]"

text \<open>\<open>FILE_TYPE_HANDLERS.get(file_type, default_handler)\<close>, for the \<open>file_type\<close> that
  \<open>guess_file_type\<close> answered.\<close>

definition handler_for :: "string option \<Rightarrow> handler" where
  "handler_for file_type =
     (case file_type of
        None \<Rightarrow> DefaultHandler
      | Some t \<Rightarrow> (case map_of FILE_TYPE_HANDLERS t of None \<Rightarrow> DefaultHandler | Some h \<Rightarrow> h))"

text \<open>\<open>await handler(file_path, module_path, language, nlp)\<close>: the call of
  \<open>process_image_file\<close> with four arguments raises \<open>TypeError\<close>.\<close>

definition returned :: "event list \<times> pyval option \<Rightarrow> event list \<times> (exn + pyval option)" where
  "returned r = (fst r, Inr (snd r))"

fun run_handler ::
  "world \<Rightarrow> handler \<Rightarrow> path \<Rightarrow> string \<Rightarrow> string option \<Rightarrow> event list \<times> (exn + pyval option)" where
  "run_handler w PythonFile fp mp lang = returned (process_python_file w fp mp lang)"
| "run_handler w JavascriptFile fp mp lang = returned (process_javascript_file w fp mp lang)"
| "run_handler w HtmlFile fp mp lang = returned (process_html_file w fp mp lang)"
| "run_handler w CssFile fp mp lang = returned (process_css_file w fp mp lang)"
| "run_handler w JsonFile fp mp lang = returned (process_json_file w fp mp lang)"
| "run_handler w MarkdownFile fp mp lang = returned (process_markdown_file w fp mp lang)"
| "run_handler w TextFile fp mp lang = returned (process_text_file w fp mp lang)"
| "run_handler w TypescriptFile fp mp lang = returned (process_typescript_file w fp mp lang)"
| "run_handler w JsxFile fp mp lang = returned (process_jsx_file w fp mp lang)"
| "run_handler w VueFile fp mp lang = returned (process_vue_file w fp mp lang)"
| "run_handler w YamlFile fp mp lang = returned (process_yaml_file w fp mp lang)"
| "run_handler w XmlFile fp mp lang = returned (process_xml_file w fp mp lang)"
| "run_handler w ImageFile fp mp lang = ([], Inl TypeError)"
| "run_handler w DocumentFile fp mp lang = returned (process_document_file w fp mp lang)"
| "run_handler w DefaultHandler fp mp lang = returned (default_handler w fp mp lang)"

text \<open>\<open>file_data['analysis'][k] = v\<close>.\<close>

definition set_analysis :: "pyval \<Rightarrow> string \<Rightarrow> pyval \<Rightarrow> exn + pyval" where
  "set_analysis file_data k v =
     bind_exn (subscript file_data ''analysis'') (\<lambda>a.
     bind_exn (set_item a k v) (\<lambda>a'. set_item file_data ''analysis'' a'))"

text \<open>\<open>nlp(x)\<close> on a value: an exception for a value that is no string.\<close>

definition nlp_entities :: "world \<Rightarrow> pyval \<Rightarrow> exn + pyval" where
  "nlp_entities w x =
     (case x of
        PStr c \<Rightarrow> (case nlp_ents w c of None \<Rightarrow> Inl OtherError | Some ents \<Rightarrow> Inr (ent_dicts ents))
      | _ \<Rightarrow> Inl TypeError)"

text \<open>Lines 224 to 229 of \<open>process_file\<close>: the language, the entities, the function
  count and the comment density are written into the record the handler returned.\<close>

definition annotate :: "world \<Rightarrow> pyval \<Rightarrow> string option \<Rightarrow> exn + pyval" where
  "annotate w file_data language =
     bind_exn (set_item file_data ''language'' (lang_val language)) (\<lambda>d1.
     bind_exn (subscript d1 ''content'') (\<lambda>content.
     bind_exn (nlp_entities w content) (\<lambda>entities.
     bind_exn (set_analysis d1 ''entities'' entities) (\<lambda>d2.
     bind_exn (set_analysis d2 ''function_count'' (PInt (calculate_function_count d2))) (\<lambda>d3.
     set_analysis d3 ''comment_density'' (calculate_comment_density d3))))))"

text \<open>
  \<open>process_file\<close>. Every exception of the body is caught and logged by the function
  itself, so it always returns; its value is the list of its events. The handler
  (a function) is always truthy, so the branch "no handler found" is never taken.
\<close>

definition process_file :: "world \<Rightarrow> path \<Rightarrow> string \<Rightarrow> path \<Rightarrow> event list" where
  "process_file w file_path module_path output_dir =
     (if \<not> path_exists w file_path then [ErrorLogged file_path]
      else if is_binary_file w file_path then []
      else
        (case guess_file_type w file_path of
           Inl e \<Rightarrow> [ErrorLogged file_path]
         | Inr file_type \<Rightarrow>
             (let language = guess_language w file_path;
                  handler = handler_for file_type
              in HandlerCalled handler file_path #
                 (case run_handler w handler file_path module_path language of
                    (evs, Inl e) \<Rightarrow> evs @ [ErrorLogged file_path]
                  | (evs, Inr None) \<Rightarrow> evs @ [ErrorLogged file_path]
                  | (evs, Inr (Some file_data)) \<Rightarrow>
                      evs @
                      (if truthy file_data then
                         (case annotate w file_data language of
                            Inl e \<Rightarrow> [ErrorLogged file_path]
                          | Inr d \<Rightarrow>
                              if module_path = [] then [ErrorLogged file_path]
                              else save_to_jsonl w d (output_dir @ ''/'' @ module_path @ ''.jsonl''))
                       else [ErrorLogged file_path])))))"

text \<open>\<open>process_file_in_pool\<close>: its own \<open>except\<close> clause is never reached.\<close>

definition process_file_in_pool :: "world \<Rightarrow> path \<times> string \<times> path \<Rightarrow> event list" where
  "process_file_in_pool w args = (case args of (file_path, module_path, output_dir) \<Rightarrow>
     process_file w file_path module_path output_dir)"

section \<open>main\_controller.py: directories\<close>

text \<open>
  The module map \<open>codebase_data\<close> maps a module path to the list of its records.

  \<open>process_directory_concurrently\<close> answers its map and the events of its tasks. The
  tasks of the pool are run here one after the other, in the order of the argument list:
  a task reads the world only and appends lines, so another schedule permutes the
  events of different tasks and nothing else. An exception of the listing or of
  \<open>relpath\<close> is caught and logged, and no task runs.
\<close>

type_synonym codebase = "(string \<times> pyval list) list"

definition task_args :: "world \<Rightarrow> path \<Rightarrow> path \<Rightarrow> path \<Rightarrow> (path \<times> string \<times> path) option" where
  "task_args w root_dir output_dir file_path =
     (case relpath (cwd w) (parent file_path) root_dir of
        Inl e \<Rightarrow> None
      | Inr module_path \<Rightarrow> Some (file_path, module_path, output_dir))"

definition process_directory_concurrently ::
  "world \<Rightarrow> path \<Rightarrow> path \<Rightarrow> path \<Rightarrow> codebase \<times> event list" where
  "process_directory_concurrently w directory_path root_dir output_dir =
     (let codebase_data = [] in
      case rglob_files w directory_path of
        None \<Rightarrow> (codebase_data, [ErrorLogged directory_path])
      | Some file_paths \<Rightarrow>
          (case those (map (task_args w root_dir output_dir) file_paths) of
             None \<Rightarrow> (codebase_data, [ErrorLogged directory_path])
           | Some args_list \<Rightarrow> (codebase_data, concat (map (process_file_in_pool w) args_list))))"

text \<open>\<open>process_all_directories\<close>: one batch per directory of \<open>os.walk\<close>, the maps merged
  with \<open>update\<close>.\<close>

definition process_all_directories :: "world \<Rightarrow> path \<Rightarrow> path \<Rightarrow> codebase \<times> event list" where
  "process_all_directories w root_dir output_dir =
     foldl (\<lambda>(codebase_data, evs) dir.
              (case process_directory_concurrently w dir root_dir output_dir of
                 (directory_data, evs') \<Rightarrow> (dict_update codebase_data directory_data, evs @ evs')))
       ([], []) (os_walk w root_dir)"

section \<open>analysis.py: counts over the module map\<close>

definition count_skipped_files :: "codebase \<Rightarrow> nat" where
  "count_skipped_files codebase_data =
     sum_list (map (\<lambda>(module_path, module_data). length (filter (\<lambda>file_data. file_data = PNone) module_data))
       codebase_data)"

text \<open>Iteration over a value, \<open>k in x\<close> for a string \<open>k\<close>, and \<open>a + b\<close> for a number \<open>a\<close>.
  A value that cannot be a dictionary key is a list or a dictionary.\<close>

fun py_iter :: "pyval \<Rightarrow> exn + pyval list" where
  "py_iter (PList xs) = Inr xs"
| "py_iter (PDict kvs) = Inr (map (\<lambda>kv. PStr (fst kv)) kvs)"
| "py_iter (PStr s) = Inr (map (\<lambda>c. PStr [c]) s)"
| "py_iter _ = Inl TypeError"

definition is_substring :: "string \<Rightarrow> string \<Rightarrow> bool" where
  "is_substring k s = list_ex (\<lambda>i. take (length k) (drop i s) = k) [0..<Suc (length s)]"

fun contains_str :: "pyval \<Rightarrow> string \<Rightarrow> exn + bool" where
  "contains_str (PDict kvs) k = Inr (map_of kvs k \<noteq> None)"
| "contains_str (PList xs) k = Inr (PStr k \<in> set xs)"
| "contains_str (PStr s) k = Inr (is_substring k s)"
| "contains_str _ k = Inl TypeError"

fun is_int_like :: "pyval \<Rightarrow> bool" where
  "is_int_like (PInt n) = True"
| "is_int_like (PBool b) = True"
| "is_int_like _ = False"

definition py_add :: "pyval \<Rightarrow> pyval \<Rightarrow> exn + pyval" where
  "py_add a b =
     (case (num_value a, num_value b) of
        (Some x, Some y) \<Rightarrow>
          if is_int_like a \<and> is_int_like b then Inr (PInt (\<lfloor>x\<rfloor> + \<lfloor>y\<rfloor>)) else Inr (PFloat (x + y))
      | _ \<Rightarrow> Inl TypeError)"

fun hashable :: "pyval \<Rightarrow> bool" where
  "hashable (PList xs) = False"
| "hashable (PDict kvs) = False"
| "hashable _ = True"

type_synonym counters = "(pyval \<times> pyval) list"

text \<open>\<open>lint_stats[key] = lint_stats.get(key, 0) + n\<close>. Keys are compared as values of
  the model (Python also identifies \<open>1\<close>, \<open>1.0\<close> and \<open>True\<close> as keys).\<close>

definition bump :: "counters \<Rightarrow> pyval \<Rightarrow> pyval \<Rightarrow> exn + counters" where
  "bump lint_stats key n =
     (if \<not> hashable key then Inl TypeError
      else bind_exn (py_add (case map_of lint_stats key of None \<Rightarrow> PInt 0 | Some c \<Rightarrow> c) n)
             (\<lambda>c. Inr (dict_set lint_stats key c)))"

text \<open>The loops of the Python, CSS and TypeScript branches: one count per item, under
  the item's \<open>symbol\<close>, \<open>rule\<close> or \<open>ruleName\<close>.\<close>

fun count_items :: "string \<Rightarrow> counters \<Rightarrow> pyval list \<Rightarrow> exn + counters" where
  "count_items field lint_stats [] = Inr lint_stats"
| "count_items field lint_stats (item # items) =
     bind_exn (subscript item field) (\<lambda>violation_type.
     bind_exn (bump lint_stats violation_type (PInt 1)) (\<lambda>lint_stats'.
     count_items field lint_stats' items))"

text \<open>The loop of the JavaScript branch: the \<open>errorCount\<close> and the \<open>warningCount\<close> of
  each item are added up.\<close>

definition add_count :: "string \<Rightarrow> string \<Rightarrow> counters \<Rightarrow> pyval \<Rightarrow> exn + counters" where
  "add_count field violation_type lint_stats item =
     bind_exn (contains_str item field) (\<lambda>present.
       if present then
         bind_exn (subscript item field) (\<lambda>n. bump lint_stats (PStr violation_type) n)
       else Inr lint_stats)"

fun count_eslint :: "counters \<Rightarrow> pyval list \<Rightarrow> exn + counters" where
  "count_eslint lint_stats [] = Inr lint_stats"
| "count_eslint lint_stats (item # items) =
     bind_exn (add_count ''errorCount'' ''error'' lint_stats item) (\<lambda>s1.
     bind_exn (add_count ''warningCount'' ''warning'' s1 item) (\<lambda>s2.
     count_eslint s2 items))"

text \<open>\<open>file_data['analysis'].get('lint_results')\<close> and, when it is truthy, its items.\<close>

definition lint_items :: "pyval \<Rightarrow> exn + pyval list" where
  "lint_items file_data =
     bind_exn (subscript file_data ''analysis'') (\<lambda>a.
     bind_exn (get_default a ''lint_results'' PNone) (\<lambda>lint_results.
       if truthy lint_results then py_iter lint_results else Inr []))"

definition lint_file :: "counters \<Rightarrow> pyval \<Rightarrow> exn + counters" where
  "lint_file lint_stats file_data =
     (if truthy file_data then
        bind_exn (subscript file_data ''language'') (\<lambda>language.
          if language = PStr ''python'' then
            bind_exn (lint_items file_data) (count_items ''symbol'' lint_stats)
          else if language = PStr ''javascript'' then
            bind_exn (lint_items file_data) (count_eslint lint_stats)
          else if language = PStr ''css'' then
            bind_exn (lint_items file_data) (count_items ''rule'' lint_stats)
          else if language = PStr ''typescript'' then
            bind_exn (lint_items file_data) (count_items ''ruleName'' lint_stats)
          else Inr lint_stats)
      else Inr lint_stats)"

fun lint_files :: "counters \<Rightarrow> pyval list \<Rightarrow> exn + counters" where
  "lint_files lint_stats [] = Inr lint_stats"
| "lint_files lint_stats (file_data # rest) =
     bind_exn (lint_file lint_stats file_data) (\<lambda>s. lint_files s rest)"

text \<open>\<open>analyze_lint_results\<close> has no \<open>try\<close>: an exception ends it.\<close>

definition analyze_lint_results :: "codebase \<Rightarrow> exn + counters" where
  "analyze_lint_results codebase_data = lint_files [] (concat (map snd codebase_data))"

section \<open>main\_controller.py: statistics\<close>

record codebase_stats =
  total_files :: int
  total_loc :: pyval
  total_size :: pyval
  files_by_language :: counters
  loc_by_language :: counters
  size_by_language :: counters
  files_by_module :: "(string \<times> int) list"

definition empty_stats :: codebase_stats where
  "empty_stats = \<lparr>total_files = 0, total_loc = PInt 0, total_size = PInt 0,
     files_by_language = [], loc_by_language = [], size_by_language = [],
     files_by_module = []\<rparr>"

definition metadata_field :: "pyval \<Rightarrow> string \<Rightarrow> exn + pyval" where
  "metadata_field file_data k = bind_exn (subscript file_data ''metadata'') (\<lambda>m. subscript m k)"

definition counter_of :: "counters \<Rightarrow> pyval \<Rightarrow> pyval" where
  "counter_of c k = (case map_of c k of None \<Rightarrow> PInt 0 | Some v \<Rightarrow> v)"

text \<open>The body of the inner loop: an exception is caught and logged, and the updates
  made before it stay.\<close>

definition stats_file :: "codebase_stats \<Rightarrow> pyval \<Rightarrow> codebase_stats" where
  "stats_file s file_data =
     (let s1 = s\<lparr>total_files := total_files s + 1\<rparr> in
      case bind_exn (metadata_field file_data ''loc'') (py_add (total_loc s1)) of
        Inl e \<Rightarrow> s1
      | Inr loc_total \<Rightarrow>
      (let s2 = s1\<lparr>total_loc := loc_total\<rparr> in
       case bind_exn (metadata_field file_data ''size'') (py_add (total_size s2)) of
         Inl e \<Rightarrow> s2
       | Inr sz_total \<Rightarrow>
       (let s3 = s2\<lparr>total_size := sz_total\<rparr> in
        case subscript file_data ''language'' of
          Inl e \<Rightarrow> s3
        | Inr language \<Rightarrow>
            if \<not> hashable language then s3
            else
             (let s4 = (if map_of (files_by_language s3) language = None
                        then s3\<lparr>files_by_language := dict_set (files_by_language s3) language (PInt 0),
                               loc_by_language := dict_set (loc_by_language s3) language (PInt 0),
                               size_by_language := dict_set (size_by_language s3) language (PInt 0)\<rparr>
                        else s3) in
              case py_add (counter_of (files_by_language s4) language) (PInt 1) of
                Inl e \<Rightarrow> s4
              | Inr n \<Rightarrow>
              (let s5 = s4\<lparr>files_by_language := dict_set (files_by_language s4) language n\<rparr> in
               case bind_exn (metadata_field file_data ''loc'')
                      (py_add (counter_of (loc_by_language s5) language)) of
                 Inl e \<Rightarrow> s5
               | Inr l \<Rightarrow>
               (let s6 = s5\<lparr>loc_by_language := dict_set (loc_by_language s5) language l\<rparr> in
                case bind_exn (metadata_field file_data ''size'')
                       (py_add (counter_of (size_by_language s6) language)) of
                  Inl e \<Rightarrow> s6
                | Inr z \<Rightarrow> s6\<lparr>size_by_language := dict_set (size_by_language s6) language z\<rparr>))))))"

definition calculate_codebase_stats :: "codebase \<Rightarrow> codebase_stats" where
  "calculate_codebase_stats codebase_data =
     foldl (\<lambda>s (module_path, module_data).
              foldl stats_file
                (s\<lparr>files_by_module := dict_set (files_by_module s) module_path (int (length module_data))\<rparr>)
                module_data)
       empty_stats codebase_data"

section \<open>graph\_management.py\<close>

definition possible_extensions :: "string list" where
  "possible_extensions = [''.py'', ''.js'', ''.ts'', ''.jsx'', ''.vue'', ''.scss'', ''.css'',
     ''.sass'', ''.html'', ''.tsx'', ''.xml'', ''.php'', ''.c'', ''.cpp'', ''.hpp'', ''.go'', ''.rs'']"

text \<open>\<open>import_statement.replace('.', '/')\<close>.\<close>

definition dots_to_slashes :: "string \<Rightarrow> string" where
  "dots_to_slashes s = map (\<lambda>c. if c = CHR ''.'' then CHR ''/'' else c) s"

text \<open>\<open>any(data['file_path'].endswith(path) for path in possible_paths)\<close>: the list of
  paths is never empty, so the lookup of \<open>file_path\<close> is always made.\<close>

definition path_matches :: "string list \<Rightarrow> pyval \<Rightarrow> exn + string option" where
  "path_matches possible_paths data =
     (case subscript data ''file_path'' of
        Inl e \<Rightarrow> Inl e
      | Inr (PStr p) \<Rightarrow> Inr (if list_ex (endswith p) possible_paths then Some p else None)
      | Inr _ \<Rightarrow> Inl AttributeError)"

text \<open>The loop \<open>for data in ...: if any(...): return data['file_path']\<close>.\<close>

fun first_match :: "string list \<Rightarrow> pyval list \<Rightarrow> exn + string option" where
  "first_match possible_paths [] = Inr None"
| "first_match possible_paths (data # rest) =
     (case path_matches possible_paths data of
        Inl e \<Rightarrow> Inl e
      | Inr (Some p) \<Rightarrow> Inr (Some p)
      | Inr None \<Rightarrow> first_match possible_paths rest)"

definition resolve_import :: "string \<Rightarrow> path \<Rightarrow> codebase \<Rightarrow> exn + string option" where
  "resolve_import import_statement file_path codebase_data =
     (let module_path = parent file_path;
          file_ext = suffix_of file_path;
          possible_paths = map (\<lambda>ext. dots_to_slashes import_statement @ ext)
                             (possible_extensions @ [file_ext])
      in case first_match possible_paths
                (case map_of codebase_data module_path of None \<Rightarrow> [] | Some module_data \<Rightarrow> module_data) of
           Inl e \<Rightarrow> Inl e
         | Inr (Some p) \<Rightarrow> Inr (Some p)
         | Inr None \<Rightarrow> first_match possible_paths (concat (map snd codebase_data)))"

text \<open>The directed graph: the nodes with their \<open>language\<close> attribute (None for a node
  that an edge added), and the edges.\<close>

record dep_graph =
  graph_nodes :: "(pyval \<times> pyval option) list"
  graph_edges :: "(pyval \<times> pyval) list"

definition empty_graph :: dep_graph where
  "empty_graph = \<lparr>graph_nodes = [], graph_edges = []\<rparr>"

definition add_node :: "dep_graph \<Rightarrow> pyval \<Rightarrow> pyval \<Rightarrow> exn + dep_graph" where
  "add_node g n language =
     (if \<not> hashable n then Inl TypeError
      else if n = PNone then Inl ValueError
      else Inr (g\<lparr>graph_nodes := dict_set (graph_nodes g) n (Some language)\<rparr>))"

definition ensure_node :: "(pyval \<times> pyval option) list \<Rightarrow> pyval \<Rightarrow> (pyval \<times> pyval option) list" where
  "ensure_node ns n = (if map_of ns n = None then ns @ [(n, None)] else ns)"

definition add_edge :: "dep_graph \<Rightarrow> pyval \<Rightarrow> pyval \<Rightarrow> exn + dep_graph" where
  "add_edge g u v =
     (if \<not> hashable u \<or> \<not> hashable v then Inl TypeError
      else if u = PNone \<or> v = PNone then Inl ValueError
      else Inr \<lparr>graph_nodes = ensure_node (ensure_node (graph_nodes g) u) v,
                graph_edges = (if (u, v) \<in> set (graph_edges g) then graph_edges g
                               else graph_edges g @ [(u, v)])\<rparr>)"

text \<open>\<open>resolve_import\<close> as \<open>build_dependency_graph\<close> calls it, on two values: \<open>Path\<close>
  of a value that is no string raises \<open>TypeError\<close>, \<open>replace\<close> on one that is no
  string \<open>AttributeError\<close>.\<close>

definition resolve_import_of :: "pyval \<Rightarrow> pyval \<Rightarrow> codebase \<Rightarrow> exn + string option" where
  "resolve_import_of import_statement file_path codebase_data =
     (case file_path of
        PStr p \<Rightarrow>
          (case import_statement of
             PStr i \<Rightarrow> resolve_import i p codebase_data
           | _ \<Rightarrow> Inl AttributeError)
      | _ \<Rightarrow> Inl TypeError)"

text \<open>The loop over the imports of one file; an exception ends it (it is caught by the
  \<open>try\<close> around the file) and the edges added before it stay.\<close>

fun add_imports :: "dep_graph \<Rightarrow> codebase \<Rightarrow> pyval \<Rightarrow> pyval list \<Rightarrow> dep_graph" where
  "add_imports g codebase_data file_path [] = g"
| "add_imports g codebase_data file_path (import_statement # rest) =
     (case resolve_import_of import_statement file_path codebase_data of
        Inl e \<Rightarrow> g
      | Inr None \<Rightarrow> add_imports g codebase_data file_path rest
      | Inr (Some resolved_import) \<Rightarrow>
          if resolved_import = [] then add_imports g codebase_data file_path rest
          else
            (case add_edge g file_path (PStr resolved_import) of
               Inl e \<Rightarrow> g
             | Inr g' \<Rightarrow> add_imports g' codebase_data file_path rest))"

definition graph_file :: "codebase \<Rightarrow> dep_graph \<Rightarrow> pyval \<Rightarrow> dep_graph" where
  "graph_file codebase_data g file_data =
     (case bind_exn (subscript file_data ''file_path'') (\<lambda>p.
           bind_exn (subscript file_data ''language'') (\<lambda>l.
           bind_exn (add_node g p l) (\<lambda>g1. Inr (p, l, g1)))) of
        Inl e \<Rightarrow> g
      | Inr (p, l, g1) \<Rightarrow>
          if l \<in> set [PStr ''python'', PStr ''javascript'', PStr ''typescript''] then
            (case bind_exn (subscript file_data ''analysis'') (\<lambda>a.
                  bind_exn (subscript a ''imports'') py_iter) of
               Inl e \<Rightarrow> g1
             | Inr imports \<Rightarrow> add_imports g1 codebase_data p imports)
          else g1)"

definition build_dependency_graph :: "codebase \<Rightarrow> dep_graph" where
  "build_dependency_graph codebase_data =
     foldl (graph_file codebase_data) empty_graph (concat (map snd codebase_data))"

section \<open>utilities.py: the analysis cache\<close>

text \<open>
  The cache file \<open>analysis_cache.json\<close> holds a JSON object from file path to entry;
  its content is \<open>None\<close> while the file is absent or unreadable.
  \<open>json.dump(..., default=repr)\<close> writes an object that is no JSON value as its
  \<open>repr\<close>.
\<close>

type_synonym cache = "(string \<times> pyval) list"

fun json_repr :: "pyval \<Rightarrow> pyval" where
  "json_repr (PObj r) = PStr r"
| "json_repr (PList xs) = PList (map json_repr xs)"
| "json_repr (PDict kvs) = PDict (map (\<lambda>kv. (fst kv, json_repr (snd kv))) kvs)"
| "json_repr v = v"

text \<open>The body of the loop of \<open>cache_analysis_results\<close> for one record: the key and the
  entry, or the exception that the loop catches and logs. The key is the record's
  \<open>file_path\<close>, a string in every record a handler builds; the model raises for a
  \<open>file_path\<close> that is no string.\<close>

definition cache_entry :: "world \<Rightarrow> pyval \<Rightarrow> exn + (string \<times> pyval)" where
  "cache_entry w file_data =
     bind_exn (subscript file_data ''content'') (\<lambda>content.
     bind_exn (case content of
                 PNone \<Rightarrow> Inr PNone
               | PStr c \<Rightarrow> Inr (PStr (md5_hexdigest w c))
               | _ \<Rightarrow> Inl AttributeError) (\<lambda>file_hash.
     bind_exn (subscript file_data ''analysis'') (\<lambda>analysis.
     bind_exn (subscript file_data ''file_path'') (\<lambda>p.
       case p of
         PStr file_path \<Rightarrow>
           Inr (file_path,
                PDict [(''hash'', file_hash), (''analysis'', analysis),
                       (''function_count'', PInt (calculate_function_count file_data)),
                       (''comment_density'', calculate_comment_density file_data)])
       | _ \<Rightarrow> Inl TypeError))))"

definition build_cache :: "world \<Rightarrow> codebase \<Rightarrow> cache" where
  "build_cache w codebase_data =
     foldl (\<lambda>cache file_data.
              case cache_entry w file_data of
                Inl e \<Rightarrow> cache
              | Inr (file_path, entry) \<Rightarrow> dict_set cache file_path entry)
       [] (concat (map snd codebase_data))"

text \<open>\<open>cache_analysis_results\<close>: the content of the cache file after the call, given
  its content before. The file is opened with mode \<open>w\<close>; when it cannot be opened the
  exception is caught and the file stays as it was.\<close>

definition cache_analysis_results :: "world \<Rightarrow> codebase \<Rightarrow> cache option \<Rightarrow> cache option" where
  "cache_analysis_results w codebase_data cache_file =
     (let cache = build_cache w codebase_data in
      if cache_file_ok w then Some (map (\<lambda>kv. (fst kv, json_repr (snd kv))) cache)
      else cache_file)"

definition load_analysis_cache :: "cache option \<Rightarrow> cache" where
  "load_analysis_cache cache_file = (case cache_file of None \<Rightarrow> [] | Some c \<Rightarrow> c)"

section \<open>main\_controller.py: main\<close>

text \<open>The loop of \<open>main\<close> over the records of the module map (lines 150 to 162), for
  one record. An exception is caught and logged; the updates made before it stay.\<close>

definition content_hash :: "world \<Rightarrow> pyval \<Rightarrow> exn + string" where
  "content_hash w file_data =
     bind_exn (subscript file_data ''content'') (\<lambda>content.
       case content of PStr c \<Rightarrow> Inr (md5_hexdigest w c) | _ \<Rightarrow> Inl AttributeError)"

text \<open>\<open>k in d\<close> and \<open>d[k]\<close> for a dictionary with string keys and any value \<open>k\<close>.\<close>

definition lookup_key :: "(string \<times> 'v) list \<Rightarrow> pyval \<Rightarrow> exn + 'v option" where
  "lookup_key d k =
     (case k of
        PStr p \<Rightarrow> Inr (map_of d p)
      | _ \<Rightarrow> if hashable k then Inr None else Inl TypeError)"

definition apply_cache :: "cache \<Rightarrow> string \<Rightarrow> pyval \<Rightarrow> exn + pyval" where
  "apply_cache analysis_cache file_hash file_data =
     bind_exn (subscript file_data ''file_path'') (\<lambda>p.
     bind_exn (lookup_key analysis_cache p) (\<lambda>hit.
       case hit of
         None \<Rightarrow> Inr file_data
       | Some entry \<Rightarrow>
           bind_exn (subscript entry ''hash'') (\<lambda>h.
             if h = PStr file_hash then
               bind_exn (subscript entry ''analysis'') (\<lambda>a. set_item file_data ''analysis'' a)
             else Inr file_data)))"

text \<open>\<open>doc_links\<close> is unbound (None) when loading the links raised.\<close>

definition apply_doc_links :: "(string \<times> string) list option \<Rightarrow> string \<Rightarrow> pyval \<Rightarrow> exn + pyval" where
  "apply_doc_links doc_links module_path file_data =
     bind_exn (subscript file_data ''file_path'') (\<lambda>p.
       case doc_links of
         None \<Rightarrow> Inl OtherError
       | Some links \<Rightarrow>
           bind_exn (lookup_key links p) (\<lambda>hit.
             case hit of
               None \<Rightarrow> Inr file_data
             | Some url \<Rightarrow>
                 bind_exn (set_item file_data ''documentation'' (PStr url)) (\<lambda>d.
                   set_item d ''module_path'' (PStr module_path))))"

definition update_file_data ::
  "world \<Rightarrow> cache \<Rightarrow> (string \<times> string) list option \<Rightarrow> string \<Rightarrow> pyval \<Rightarrow> pyval" where
  "update_file_data w analysis_cache doc_links module_path file_data =
     (case content_hash w file_data of
        Inl e \<Rightarrow> file_data
      | Inr file_hash \<Rightarrow>
          (case apply_cache analysis_cache file_hash file_data of
             Inl e \<Rightarrow> file_data
           | Inr d1 \<Rightarrow>
               (case apply_doc_links doc_links module_path d1 of
                  Inl e \<Rightarrow> d1
                | Inr d2 \<Rightarrow> d2)))"

definition update_codebase ::
  "world \<Rightarrow> cache \<Rightarrow> (string \<times> string) list option \<Rightarrow> codebase \<Rightarrow> codebase" where
  "update_codebase w analysis_cache doc_links codebase_data =
     map (\<lambda>(module_path, module_data).
            (module_path, map (update_file_data w analysis_cache doc_links module_path) module_data))
       codebase_data"

text \<open>
  \<open>main\<close>, for a root directory, an output directory and the content of the cache file
  at the start. \<open>os.makedirs(output_dir)\<close> and the opening of the log file stand outside
  every \<open>try\<close>: an exception there ends the process with a traceback and a non-zero
  status before anything else runs. Every later stage is wrapped in its own
  \<open>try ... except Exception\<close>. The rendering of the graphs and the call graph are not
  modelled.
\<close>

record main_result =
  run_events :: "event list"
  run_codebase :: codebase
  run_skipped :: nat
  run_graph :: dep_graph
  run_lint_stats :: "exn + counters"
  run_stats :: codebase_stats
  run_cache_file :: "cache option"

datatype run = Aborted | Completed (result: main_result)

definition main :: "world \<Rightarrow> path \<Rightarrow> path \<Rightarrow> cache option \<Rightarrow> run" where
  "main w root_dir output_dir cache_file =
     (if \<not> makedirs_ok w output_dir \<or> \<not> log_file_ok w then Aborted
      else
        (case process_all_directories w root_dir output_dir of
           (processed, evs) \<Rightarrow>
             (let skipped_files = count_skipped_files processed;
                  analysis_cache = load_analysis_cache cache_file;
                  doc_links = documentation_links w;
                  codebase_data = update_codebase w analysis_cache doc_links processed
              in Completed
                   \<lparr>run_events = evs,
                    run_codebase = codebase_data,
                    run_skipped = skipped_files,
                    run_graph = build_dependency_graph codebase_data,
                    run_lint_stats = analyze_lint_results codebase_data,
                    run_stats = calculate_codebase_stats codebase_data,
                    run_cache_file = cache_analysis_results w codebase_data cache_file\<rparr>)))"

text \<open>The exit status of the process and the events of a run.\<close>

fun exit_status :: "run \<Rightarrow> nat" where
  "exit_status Aborted = 1"
| "exit_status (Completed r) = 0"

fun events_of :: "run \<Rightarrow> event list" where
  "events_of Aborted = []"
| "events_of (Completed r) = run_events r"

fun cache_file_of :: "cache option \<Rightarrow> run \<Rightarrow> cache option" where
  "cache_file_of cache_file Aborted = cache_file"
| "cache_file_of cache_file (Completed r) = run_cache_file r"

section \<open>A sample tree\<close>

text \<open>
  A tree \<open>/proj\<close> with one module directory \<open>m\<close> holding a text file, a Python file
  and an image. \<open>filetype\<close> knows the image by its signature; \<open>magic\<close> reports
  \<open>text/plain\<close> for the two others. No external tool is installed.
\<close>

definition sample_files :: "(path \<times> string) list" where
  "sample_files = [(''/proj/m/notes.txt'', ''hello''), (''/proj/m/a.py'', ''import b'')]"

definition sample_world :: world where
  "sample_world =
     \<lparr>cwd = ''/home/u'',
      path_exists = (\<lambda>p. p \<in> set [''/proj'', ''/proj/m'', ''/proj/m/notes.txt'', ''/proj/m/a.py'',
                                    ''/proj/m/logo.png'']),
      os_walk = (\<lambda>p. if p = ''/proj'' then [''/proj'', ''/proj/m'']
                     else if p = ''/proj/m'' then [''/proj/m''] else []),
      rglob_files = (\<lambda>p. if p = ''/proj'' \<or> p = ''/proj/m''
                          then Some [''/proj/m/notes.txt'', ''/proj/m/a.py'', ''/proj/m/logo.png'']
                          else Some []),
      filetype_guess = (\<lambda>p. if p = ''/proj/m/logo.png'' then Inr (Some ''image/png'') else Inr None),
      magic_from_file = (\<lambda>p. if map_of sample_files p \<noteq> None then Inr ''text/plain''
                              else Inl OSError),
      read_utf8 = (\<lambda>p. case map_of sample_files p of None \<Rightarrow> Inl OSError | Some c \<Rightarrow> Inr c),
      getsize = (\<lambda>p. case map_of sample_files p of None \<Rightarrow> None | Some c \<Rightarrow> Some (int (length c))),
      makedirs_ok = (\<lambda>p. True),
      can_append = (\<lambda>p. True),
      log_file_ok = True,
      cache_file_ok = True,
      lexer_name = (\<lambda>p c. if endswith p ''.py'' then Some ''Python'' else Some ''Text only''),
      nlp_ents = (\<lambda>c. Some []),
      run_process = (\<lambda>cmd. None),
      json_loads = (\<lambda>s. None),
      yaml_safe_load = (\<lambda>s. None),
      markdown_html = (\<lambda>s. None),
      md5_hexdigest = (\<lambda>s. ''md5:'' @ s),
      py_parse = (\<lambda>s. None),
      py_build = (\<lambda>s. None),
      cc_visit = (\<lambda>s. None),
      html_parse = (\<lambda>s. None),
      css_parse = (\<lambda>s. None),
      js_parse = (\<lambda>s. None),
      js_build = (\<lambda>s. None),
      xml_parse = (\<lambda>s. None),
      documentation_links = Some []\<rparr>"


text \<open>The sample tree with \<open>pylint\<close> installed: it exits with 0 and prints the empty
  array, and the Python parser answers.\<close>

definition lint_world :: world where
  "lint_world = sample_world
     \<lparr>run_process := (\<lambda>cmd. Some (0, ''[]'', [])),
      json_loads := (\<lambda>s. if s = ''[]'' then Some (PList []) else None),
      py_parse := (\<lambda>s. Some ([PStr ''b''], [], [])),
      py_build := (\<lambda>s. Some ([], [])),
      cc_visit := (\<lambda>s. Some (Some (PInt 1)))\<rparr>"

text \<open>A world where the root directory is missing, one where the entity extractor
  raises for every text, and one where the output directory cannot be created.\<close>

definition missing_root_world :: world where
  "missing_root_world = sample_world\<lparr>path_exists := (\<lambda>p. False), os_walk := (\<lambda>p. [])\<rparr>"

definition no_nlp_world :: world where
  "no_nlp_world = sample_world\<lparr>nlp_ents := (\<lambda>c. None)\<rparr>"

definition no_output_world :: world where
  "no_output_world = sample_world\<lparr>makedirs_ok := (\<lambda>p. False)\<rparr>"




definition py_cache :: cache where
  "py_cache =
     [(''/proj/m/a.py'',
       PDict [(''hash'', PStr ''md5:import b''),
              (''analysis'', PDict [(''entities'', PList []), (''function_count'', PInt 0),
                                   (''comment_density'', PFloat 0)]),
              (''function_count'', PInt 0), (''comment_density'', PFloat 0)])]"


text \<open>The records a list of events persists, and the file path of a record.\<close>

definition saved_records :: "event list \<Rightarrow> pyval list" where
  "saved_records evs = List.map_filter (\<lambda>e. case e of Saved f r \<Rightarrow> Some r | _ \<Rightarrow> None) evs"


text \<open>Two modules that each hold a file \<open>b.py\<close>; the module map lists \<open>moduleB\<close>
  first.\<close>

definition import_record :: "path \<Rightarrow> pyval" where
  "import_record p = PDict [(''file_path'', PStr p), (''language'', PStr ''python''),
     (''analysis'', PDict [(''imports'', PList [])])]"

definition import_codebase :: codebase where
  "import_codebase =
     [(''moduleB'', [import_record ''moduleB/b.py'']),
      (''moduleA'', [import_record ''moduleA/a.py'', import_record ''moduleA/b.py''])]"

text \<open>The linter ran, and \<open>lint_results\<close> is None (a non-zero exit status) or a JSON
  array (the parsed output).\<close>

definition lint_none_or_array :: "world \<Rightarrow> string list \<Rightarrow> bool" where
  "lint_none_or_array w cmd =
     (case run_process w cmd of
        None \<Rightarrow> False
      | Some (returncode, stdout, stderr) \<Rightarrow>
          returncode \<noteq> 0 \<or> (case json_loads w stdout of Some (PList xs) \<Rightarrow> True | _ \<Rightarrow> False))"

section \<open>Properties of the validation\<close>

lemma validates_typed: "validates (typed ts) v = list_ex (\<lambda>t. is_type t v) ts"
  by (cases v) (simp_all add: typed_def)



section \<open>Properties of the dispatch\<close>

lemma handler_for_text_types: "list_all (\<lambda>t. handler_for (Some t) = DefaultHandler) text_types"
  by code_simp

lemma handler_for_text_type: "t \<in> set text_types \<Longrightarrow> handler_for (Some t) = DefaultHandler"
  using handler_for_text_types by (simp add: list_all_iff)

lemma not_binary_type:
  "\<not> is_binary_file w p \<longleftrightarrow> (\<exists>t. guess_file_type w p = Inr (Some t) \<and> t \<in> set text_types)"
  by (auto simp add: is_binary_file_def is_text_file_def split: sum.splits option.splits)

lemma default_handler_cases:
  "default_handler w p mp lang = ([ErrorLogged p], None) \<or>
   (\<exists>c an md. default_handler w p mp lang = ([], Some (file_record p (lang_val lang) c an md mp)))"
  unfolding default_handler_def
  by (cases "read_content w p") (auto split: option.splits Option.bind_splits)

lemma process_file_text:
  assumes "path_exists w p" and "\<not> is_binary_file w p"
  shows "process_file w p mp out =
     HandlerCalled DefaultHandler p #
       (case default_handler w p mp (guess_language w p) of
          (evs, None) \<Rightarrow> evs @ [ErrorLogged p]
        | (evs, Some file_data) \<Rightarrow>
            evs @ (if truthy file_data then
                     (case annotate w file_data (guess_language w p) of
                        Inl e \<Rightarrow> [ErrorLogged p]
                      | Inr d \<Rightarrow> if mp = [] then [ErrorLogged p]
                                else save_to_jsonl w d (out @ ''/'' @ mp @ ''.jsonl''))
                   else [ErrorLogged p]))"
proof -
  from assms(2) obtain t where t: "guess_file_type w p = Inr (Some t)" "t \<in> set text_types"
    using not_binary_type by blast
  show ?thesis
    using assms t
    by (simp add: process_file_def handler_for_text_type returned_def Let_def
        split: prod.splits option.splits)
qed

lemma process_file_binary:
  "is_binary_file w p \<Longrightarrow> process_file w p mp out = (if path_exists w p then [] else [ErrorLogged p])"
  by (simp add: process_file_def)

lemma process_file_dispatch:
  "HandlerCalled h q \<in> set (process_file w p mp out) \<Longrightarrow> h = DefaultHandler \<and> q = p"
proof (cases "path_exists w p \<and> \<not> is_binary_file w p")
  case False
  assume "HandlerCalled h q \<in> set (process_file w p mp out)"
  with False show ?thesis by (auto simp add: process_file_def split: if_splits)
next
  case True
  assume a: "HandlerCalled h q \<in> set (process_file w p mp out)"
  from default_handler_cases[of w p mp "guess_language w p"] a True show ?thesis
    by (auto simp add: process_file_text save_to_jsonl_def split: if_splits sum.splits)
qed

section \<open>Classification of binary files\<close>

text \<open>
  Claim C10. \<open>is_binary_file\<close> answers False exactly when the detected MIME type is one
  of the six text types; an undetermined type (\<open>None\<close>) and a detection error classify
  the file as binary. For a binary file \<open>async_read\<close> answers None and \<open>process_file\<close>
  returns without a handler call and without a record.
\<close>

theorem is_binary_file_classification:
  "(\<not> is_binary_file w p \<longleftrightarrow>
      (\<exists>t. guess_file_type w p = Inr (Some t) \<and>
           t \<in> {''text/plain'', ''text/html'', ''text/css'', ''text/javascript'',
                 ''application/json'', ''application/xml''})) \<and>
   (guess_file_type w p = Inr None \<longrightarrow> is_binary_file w p) \<and>
   (guess_file_type w p = Inl e \<longrightarrow> is_binary_file w p) \<and>
   (is_binary_file w p \<longrightarrow>
      async_read w p = Inr None \<and>
      process_file w p mp out = (if path_exists w p then [] else [ErrorLogged p]))"
  using not_binary_type[of w p]
  by (auto simp add: text_types_def async_read_def process_file_binary)

theorem is_binary_file_classification_witness:
  "is_binary_file sample_world ''/proj/m/logo.png'' \<and>
   guess_file_type sample_world ''/proj/m/logo.png'' = Inr (Some ''image/png'') \<and>
   async_read sample_world ''/proj/m/logo.png'' = Inr None \<and>
   process_file sample_world ''/proj/m/logo.png'' ''m'' ''/out'' = [] \<and>
   \<not> is_binary_file sample_world ''/proj/m/notes.txt'' \<and>
   guess_file_type sample_world ''/proj/m/notes.txt'' = Inr (Some ''text/plain'')"
proof -
  have b: "is_binary_file sample_world ''/proj/m/logo.png''" by code_simp
  have e: "path_exists sample_world ''/proj/m/logo.png''" by code_simp
  have g: "guess_file_type sample_world ''/proj/m/logo.png'' = Inr (Some ''image/png'')" by code_simp
  have t: "guess_file_type sample_world ''/proj/m/notes.txt'' = Inr (Some ''text/plain'')" by code_simp
  from is_binary_file_classification[of sample_world "''/proj/m/notes.txt''"] t
  have n: "\<not> is_binary_file sample_world ''/proj/m/notes.txt''" by simp
  from is_binary_file_classification[of sample_world "''/proj/m/logo.png''" undefined "''m''" "''/out''"] b e
  have "async_read sample_world ''/proj/m/logo.png'' = Inr None \<and>
        process_file sample_world ''/proj/m/logo.png'' ''m'' ''/out'' = []" by simp
  with b g t n show ?thesis by simp
qed

section \<open>Dispatch of a Python file\<close>

text \<open>
  Claim C2. The table maps the extension \<open>.py\<close> to the Python handler, but
  \<open>process_file\<close> looks up the MIME type that \<open>guess_file_type\<close> answered: the file
  \<open>/proj/m/a.py\<close> of the sample tree, detected as \<open>text/plain\<close>, is handed to the
  default handler and never to the Python handler.
\<close>

theorem process_file_py_default_handler:
  "map_of FILE_TYPE_HANDLERS (suffix_of ''/proj/m/a.py'') = Some PythonFile \<and>
   path_exists sample_world ''/proj/m/a.py'' \<and>
   guess_file_type sample_world ''/proj/m/a.py'' = Inr (Some ''text/plain'') \<and>
   hd (process_file sample_world ''/proj/m/a.py'' ''m'' ''/out'') =
     HandlerCalled DefaultHandler ''/proj/m/a.py'' \<and>
   HandlerCalled PythonFile ''/proj/m/a.py'' \<notin> set (process_file sample_world ''/proj/m/a.py'' ''m'' ''/out'')"
  by code_simp

section \<open>The module map of a run\<close>

lemma process_directory_concurrently_empty:
  "fst (process_directory_concurrently w d r out) = []"
  by (simp add: process_directory_concurrently_def split: option.splits)

lemma walk_fold_empty:
  "fst (foldl (\<lambda>(codebase_data, evs) dir.
              (case process_directory_concurrently w dir root_dir output_dir of
                 (directory_data, evs') \<Rightarrow> (dict_update codebase_data directory_data, evs @ evs')))
       acc dirs) = fst acc"
proof (induction dirs arbitrary: acc)
  case Nil
  show ?case by simp
next
  case (Cons d ds)
  obtain cd evs where acc: "acc = (cd, evs)" by (cases acc)
  obtain dd evs' where pd: "process_directory_concurrently w d root_dir output_dir = (dd, evs')"
    by (cases "process_directory_concurrently w d root_dir output_dir")
  with process_directory_concurrently_empty[of w d root_dir output_dir] have "dd = []" by simp
  with acc pd Cons.IH show ?case by (simp add: dict_update_def)
qed

lemma process_all_directories_empty: "fst (process_all_directories w r out) = []"
  unfolding process_all_directories_def by (simp add: walk_fold_empty)

text \<open>
  Claim C3. \<open>process_directory_concurrently\<close> and \<open>process_all_directories\<close> return the
  empty map for every world, root and output directory; so a run that completes counts
  no skipped file, builds the empty graph, finds no lint statistics, computes the zero
  statistics and writes the empty cache (when the cache file can be written).
\<close>

theorem process_all_directories_returns_empty:
  "fst (process_directory_concurrently w d root_dir output_dir) = [] \<and>
   fst (process_all_directories w root_dir output_dir) = [] \<and>
   (\<forall>r. main w root_dir output_dir cache_file = Completed r \<longrightarrow>
      run_codebase r = [] \<and> run_skipped r = 0 \<and> run_graph r = empty_graph \<and>
      run_lint_stats r = Inr [] \<and> run_stats r = empty_stats \<and>
      run_cache_file r = (if cache_file_ok w then Some [] else cache_file))"
proof -
  obtain cd evs where p: "process_all_directories w root_dir output_dir = (cd, evs)"
    by (cases "process_all_directories w root_dir output_dir")
  with process_all_directories_empty[of w root_dir output_dir] have cd: "cd = []" by simp
  have "run_codebase r = [] \<and> run_skipped r = 0 \<and> run_graph r = empty_graph \<and>
      run_lint_stats r = Inr [] \<and> run_stats r = empty_stats \<and>
      run_cache_file r = (if cache_file_ok w then Some [] else cache_file)"
    if "main w root_dir output_dir cache_file = Completed r" for r
    using that p cd
    by (auto simp add: main_def Let_def update_codebase_def count_skipped_files_def
        build_dependency_graph_def analyze_lint_results_def calculate_codebase_stats_def
        cache_analysis_results_def build_cache_def split: if_splits)
  then show ?thesis
    using process_directory_concurrently_empty process_all_directories_empty by blast
qed

theorem process_all_directories_returns_empty_witness:
  "(case main sample_world ''/proj'' ''/out'' (Some py_cache) of
      Aborted \<Rightarrow> False
    | Completed r \<Rightarrow>
        length (run_events r) = 8 \<and> run_codebase r = [] \<and> run_skipped r = 0 \<and>
        run_graph r = empty_graph \<and> run_lint_stats r = Inr [] \<and> run_stats r = empty_stats \<and>
        run_cache_file r = Some [])"
proof -
  have ok: "makedirs_ok sample_world ''/out'' \<and> log_file_ok sample_world \<and> cache_file_ok sample_world"
    by code_simp
  then have "main sample_world ''/proj'' ''/out'' (Some py_cache) \<noteq> Aborted"
    by (simp add: main_def Let_def split: prod.splits)
  then obtain r where r: "main sample_world ''/proj'' ''/out'' (Some py_cache) = Completed r"
    by (cases "main sample_world ''/proj'' ''/out'' (Some py_cache)") auto
  have n: "length (events_of (main sample_world ''/proj'' ''/out'' (Some py_cache))) = 8"
    by code_simp
  from process_all_directories_returns_empty[of sample_world undefined "''/proj''" "''/out''" "Some py_cache"] r ok
  have "run_codebase r = [] \<and> run_skipped r = 0 \<and> run_graph r = empty_graph \<and>
      run_lint_stats r = Inr [] \<and> run_stats r = empty_stats \<and> run_cache_file r = Some []"
    by simp
  with r n show ?thesis by simp
qed

section \<open>The handlers that run a linter\<close>

lemma validates_analysis_lint:
  "validates analysis_schema (PDict an) \<Longrightarrow> map_of an ''lint_results'' = Some v \<Longrightarrow> is_type TObject v"
  by (simp add: analysis_schema_def validates_typed)

lemma validate_json_lint_results:
  assumes "map_of an ''lint_results'' = Some v" and "\<not> is_type TObject v"
  shows "validate_json (file_record fp lang c an md mp) = Inr False"
proof -
  have "\<not> validates schema (file_record fp lang c an md mp)"
    using assms validates_analysis_lint[of an v]
    by (auto simp add: schema_def file_record_def)
  then show ?thesis by (simp add: validate_json_def file_record_def)
qed

lemma validate_and_save_rejected:
  assumes "map_of an ''lint_results'' = Some v" and "\<not> is_type TObject v"
  shows "validate_and_save w fp mp (file_record fp lang c an md mp) = ([ErrorLogged fp], None)"
  by (simp add: validate_and_save_def validate_json_lint_results[OF assms])

lemma lint_value_not_object:
  assumes "run_process w cmd = Some (rc, out, err)" and "lint_none_or_array w cmd"
    and "lint_value w rc out = Some v"
  shows "\<not> is_type TObject v"
  using assms
  by (auto simp add: lint_none_or_array_def lint_value_def split: if_splits option.splits pyval.splits)


lemma python_rejects:
  assumes "lint_none_or_array w [''pylint'', ''--output-format=json'', fp]"
  shows "snd (process_python_file w fp mp lang) = None \<and>
         (\<forall>f r. Saved f r \<notin> set (fst (process_python_file w fp mp lang)))"
  using assms
  by (auto simp add: process_python_file_def Let_def validate_and_save_rejected
        dest!: lint_value_not_object
        split: option.splits prod.splits Option.bind_splits)


lemma css_rejects:
  assumes "lint_none_or_array w [''stylelint'', ''--formatter=json'', fp]"
  shows "snd (process_css_file w fp mp lang) = None \<and>
         (\<forall>f r. Saved f r \<notin> set (fst (process_css_file w fp mp lang)))"
  using assms
  by (auto simp add: process_css_file_def Let_def validate_and_save_rejected
        dest!: lint_value_not_object
        split: option.splits prod.splits Option.bind_splits)

lemma javascript_rejects:
  assumes "lint_none_or_array w [''eslint'', ''--format=json'', fp]"
  shows "snd (process_javascript_file w fp mp lang) = None \<and>
         (\<forall>f r. Saved f r \<notin> set (fst (process_javascript_file w fp mp lang)))"
  using assms
  by (auto simp add: process_javascript_file_def Let_def validate_and_save_rejected
        dest!: lint_value_not_object
        split: option.splits prod.splits Option.bind_splits)

lemma typescript_rejects:
  assumes "lint_none_or_array w [''tslint'', ''--format=json'', fp]"
  shows "snd (process_typescript_file w fp mp lang) = None \<and>
         (\<forall>f r. Saved f r \<notin> set (fst (process_typescript_file w fp mp lang)))"
  using assms
  by (auto simp add: process_typescript_file_def Let_def validate_and_save_rejected
        dest!: lint_value_not_object
        split: option.splits prod.splits Option.bind_splits)

text \<open>
  Claim C9. In a record built by the Python, CSS, JavaScript or TypeScript handler,
  \<open>lint_results\<close> is None after a non-zero exit status of the linter and the parsed
  output otherwise. When that value is None or a JSON array it is no object, the schema
  rejects the record, \<open>validate_json\<close> returns False, and the handler returns None
  without saving the record.
\<close>

theorem linting_handlers_return_None:
  "(\<not> is_type TObject v \<and> map_of an ''lint_results'' = Some v \<longrightarrow>
      validate_json (file_record fp l c an md mp) = Inr False) \<and>
   (lint_none_or_array w [''pylint'', ''--output-format=json'', fp] \<longrightarrow>
      snd (process_python_file w fp mp lang) = None \<and>
      (\<forall>f r. Saved f r \<notin> set (fst (process_python_file w fp mp lang)))) \<and>
   (lint_none_or_array w [''stylelint'', ''--formatter=json'', fp] \<longrightarrow>
      snd (process_css_file w fp mp lang) = None \<and>
      (\<forall>f r. Saved f r \<notin> set (fst (process_css_file w fp mp lang)))) \<and>
   (lint_none_or_array w [''eslint'', ''--format=json'', fp] \<longrightarrow>
      snd (process_javascript_file w fp mp lang) = None \<and>
      (\<forall>f r. Saved f r \<notin> set (fst (process_javascript_file w fp mp lang)))) \<and>
   (lint_none_or_array w [''tslint'', ''--format=json'', fp] \<longrightarrow>
      snd (process_typescript_file w fp mp lang) = None \<and>
      (\<forall>f r. Saved f r \<notin> set (fst (process_typescript_file w fp mp lang))))"
  using python_rejects[of w fp mp lang] css_rejects[of w fp mp lang]
    javascript_rejects[of w fp mp lang] typescript_rejects[of w fp mp lang]
    validate_json_lint_results[of an v fp l c md mp]
  by blast

theorem linting_handlers_return_None_witness:
  "lint_none_or_array lint_world [''pylint'', ''--output-format=json'', ''/proj/m/a.py''] \<and>
   lint_value lint_world 0 ''[]'' = Some (PList []) \<and>
   process_python_file lint_world ''/proj/m/a.py'' ''m'' (Some ''python'') =
     ([ProcessRun [''pylint'', ''--output-format=json'', ''/proj/m/a.py''],
       ErrorLogged ''/proj/m/a.py''], None) \<and>
   validate_json (file_record ''/proj/m/a.py'' (PStr ''python'') (PStr ''import b'')
      [(''imports'', PList [PStr ''b'']), (''lint_results'', PList [])]
      [(''loc'', PInt 1), (''size'', PInt 8)] ''m'') = Inr False \<and>
   validate_json (file_record ''/proj/m/a.py'' (PStr ''python'') (PStr ''import b'')
      [(''imports'', PList [PStr ''b'']), (''lint_results'', PNone)]
      [(''loc'', PInt 1), (''size'', PInt 8)] ''m'') = Inr False"
proof -
  have h: "lint_none_or_array lint_world [''pylint'', ''--output-format=json'', ''/proj/m/a.py'']"
    by code_simp
  have v: "lint_value lint_world 0 ''[]'' = Some (PList [])" by code_simp
  have e: "fst (process_python_file lint_world ''/proj/m/a.py'' ''m'' (Some ''python'')) =
     [ProcessRun [''pylint'', ''--output-format=json'', ''/proj/m/a.py''], ErrorLogged ''/proj/m/a.py'']"
    by code_simp
  have m1: "\<not> is_type TObject (PList []) \<and>
      map_of [(''imports'', PList [PStr ''b'']), (''lint_results'', PList [])] ''lint_results'' = Some (PList [])"
    by simp
  have m2: "\<not> is_type TObject PNone \<and>
      map_of [(''imports'', PList [PStr ''b'']), (''lint_results'', PNone)] ''lint_results'' = Some PNone"
    by simp
  from linting_handlers_return_None[where w = lint_world and fp = "''/proj/m/a.py''" and mp = "''m''"
      and lang = "Some ''python''"] h
  have s: "snd (process_python_file lint_world ''/proj/m/a.py'' ''m'' (Some ''python'')) = None"
    by blast
  from linting_handlers_return_None[where v = "PList []"
      and an = "[(''imports'', PList [PStr ''b'']), (''lint_results'', PList [])]"
      and fp = "''/proj/m/a.py''" and l = "PStr ''python''" and c = "PStr ''import b''"
      and md = "[(''loc'', PInt 1), (''size'', PInt 8)]" and mp = "''m''"] m1
  have j1: "validate_json (file_record ''/proj/m/a.py'' (PStr ''python'') (PStr ''import b'')
      [(''imports'', PList [PStr ''b'']), (''lint_results'', PList [])]
      [(''loc'', PInt 1), (''size'', PInt 8)] ''m'') = Inr False" by blast
  from linting_handlers_return_None[where v = PNone
      and an = "[(''imports'', PList [PStr ''b'']), (''lint_results'', PNone)]"
      and fp = "''/proj/m/a.py''" and l = "PStr ''python''" and c = "PStr ''import b''"
      and md = "[(''loc'', PInt 1), (''size'', PInt 8)]" and mp = "''m''"] m2
  have j2: "validate_json (file_record ''/proj/m/a.py'' (PStr ''python'') (PStr ''import b'')
      [(''imports'', PList [PStr ''b'']), (''lint_results'', PNone)]
      [(''loc'', PInt 1), (''size'', PInt 8)] ''m'') = Inr False" by blast
  from e s have "process_python_file lint_world ''/proj/m/a.py'' ''m'' (Some ''python'') =
     ([ProcessRun [''pylint'', ''--output-format=json'', ''/proj/m/a.py''],
       ErrorLogged ''/proj/m/a.py''], None)"
    by (simp add: prod_eq_iff)
  with h v j1 j2 show ?thesis by blast
qed

section \<open>What validation guarantees\<close>






section \<open>Resolution of imports\<close>


lemma first_match_found:
  assumes "path_matches pp d = Inr (Some p)"
    and "\<forall>d' \<in> set ds. path_matches pp d' = Inr None \<or> path_matches pp d' = Inr (Some p)"
    and "d \<in> set ds"
  shows "first_match pp ds = Inr (Some p)"
  using assms(2,3)
proof (induction ds)
  case Nil
  then show ?case by simp
next
  case (Cons x xs)
  show ?case
  proof (cases "path_matches pp x = Inr (Some p)")
    case True
    then show ?thesis by simp
  next
    case False
    with Cons.prems have n: "path_matches pp x = Inr None" by auto
    with False assms(1) Cons.prems have "d \<in> set xs" by auto
    with Cons n show ?thesis by simp
  qed
qed


text \<open>
  Claim C7. When the module map holds the importer's directory as a key, and the only
  path among that module's records that ends with a candidate path is \<open>target\<close>, then
  \<open>resolve_import\<close> returns \<open>target\<close>, whatever the other modules hold and wherever
  they stand in the map: the importer's own module is searched first.
\<close>

theorem resolve_import_same_module_first:
  assumes pp: "possible_paths = map (\<lambda>ext. dots_to_slashes import_statement @ ext)
                                  (possible_extensions @ [suffix_of file_path])"
    and own: "map_of codebase_data (parent file_path) = Some module_data"
    and strs: "\<forall>d \<in> set module_data. \<exists>p. subscript d ''file_path'' = Inr (PStr p)"
    and cand: "\<exists>d \<in> set module_data. subscript d ''file_path'' = Inr (PStr target)"
    and ends: "list_ex (endswith target) possible_paths"
    and only: "\<forall>d \<in> set module_data. \<forall>p. subscript d ''file_path'' = Inr (PStr p) \<and>
                 list_ex (endswith p) possible_paths \<longrightarrow> p = target"
  shows "resolve_import import_statement file_path codebase_data = Inr (Some target)"
proof -
  from cand obtain d where d: "d \<in> set module_data" "subscript d ''file_path'' = Inr (PStr target)"
    by blast
  with ends have m: "path_matches possible_paths d = Inr (Some target)"
    by (simp add: path_matches_def)
  have "path_matches possible_paths d' = Inr None \<or> path_matches possible_paths d' = Inr (Some target)"
    if "d' \<in> set module_data" for d'
  proof -
    from strs that obtain p where p: "subscript d' ''file_path'' = Inr (PStr p)" by blast
    with only that show ?thesis by (auto simp add: path_matches_def)
  qed
  with m d(1) have "first_match possible_paths module_data = Inr (Some target)"
    using first_match_found by blast
  with pp own show ?thesis by (simp add: resolve_import_def Let_def)
qed

theorem resolve_import_same_module_first_witness:
  "map_of import_codebase (parent ''moduleA/a.py'') =
     Some [import_record ''moduleA/a.py'', import_record ''moduleA/b.py''] \<and>
   hd import_codebase = (''moduleB'', [import_record ''moduleB/b.py'']) \<and>
   endswith ''moduleB/b.py'' ''b.py'' \<and> endswith ''moduleA/b.py'' ''b.py'' \<and>
   resolve_import ''b'' ''moduleA/a.py'' import_codebase = Inr (Some ''moduleA/b.py'')"
proof -
  let ?pp = "map (\<lambda>ext. dots_to_slashes ''b'' @ ext) (possible_extensions @ [suffix_of ''moduleA/a.py''])"
  let ?md = "[import_record ''moduleA/a.py'', import_record ''moduleA/b.py'']"
  have own: "map_of import_codebase (parent ''moduleA/a.py'') = Some ?md" by code_simp
  have h: "hd import_codebase = (''moduleB'', [import_record ''moduleB/b.py''])" by code_simp
  have e: "endswith ''moduleB/b.py'' ''b.py'' \<and> endswith ''moduleA/b.py'' ''b.py''" by code_simp
  have na: "\<not> list_ex (endswith ''moduleA/a.py'') ?pp" by code_simp
  have yb: "list_ex (endswith ''moduleA/b.py'') ?pp" by code_simp
  have strs: "\<forall>d \<in> set ?md. \<exists>p. subscript d ''file_path'' = Inr (PStr p)"
    by (simp add: import_record_def)
  have cand: "\<exists>d \<in> set ?md. subscript d ''file_path'' = Inr (PStr ''moduleA/b.py'')"
    by (simp add: import_record_def)
  have only: "\<forall>d \<in> set ?md. \<forall>p. subscript d ''file_path'' = Inr (PStr p) \<and>
                 list_ex (endswith p) ?pp \<longrightarrow> p = ''moduleA/b.py''"
    using na by (auto simp add: import_record_def)
  from resolve_import_same_module_first[OF refl own strs cand yb only] own h e
  show ?thesis by simp
qed

section \<open>The cache file at the end of a run\<close>










section \<open>The cache and the dispatch\<close>








section \<open>The exit status of a run\<close>


lemma save_to_jsonl_outcome:
  "(\<exists>f r. Saved f r \<in> set (save_to_jsonl w d f')) \<or> (\<exists>q. ErrorLogged q \<in> set (save_to_jsonl w d f'))"
  by (simp add: save_to_jsonl_def)

lemma process_file_outcome:
  assumes "path_exists w p" and "\<not> is_binary_file w p"
  shows "(\<exists>f r. Saved f r \<in> set (process_file w p mp out)) \<or>
         (\<exists>q. ErrorLogged q \<in> set (process_file w p mp out))"
proof -
  from default_handler_cases[of w p mp "guess_language w p"]
  consider (failed) "default_handler w p mp (guess_language w p) = ([ErrorLogged p], None)"
    | (built) fd where "default_handler w p mp (guess_language w p) = ([], Some fd)"
    by blast
  then show ?thesis
  proof cases
    case failed
    then show ?thesis by (simp add: process_file_text[OF assms])
  next
    case built
    show ?thesis
    proof (cases "truthy fd")
      case False
      with built show ?thesis by (simp add: process_file_text[OF assms])
    next
      case True
      show ?thesis
      proof (cases "annotate w fd (guess_language w p)")
        case (Inl e)
        with built True show ?thesis by (simp add: process_file_text[OF assms])
      next
        case (Inr d)
        show ?thesis
        proof (cases "mp = []")
          case True
          with built \<open>truthy fd\<close> Inr show ?thesis by (simp add: process_file_text[OF assms])
        next
          case False
          with built \<open>truthy fd\<close> Inr
          have "process_file w p mp out =
            HandlerCalled DefaultHandler p # save_to_jsonl w d (out @ ''/'' @ mp @ ''.jsonl'')"
            by (simp add: process_file_text[OF assms])
          with save_to_jsonl_outcome[of w d "out @ ''/'' @ mp @ ''.jsonl''"] show ?thesis
            by auto
        qed
      qed
    qed
  qed
qed

text \<open>
  Claim C8, as amended. \<open>main\<close> ends with a non-zero status exactly when the output
  directory cannot be created or the log file cannot be opened, and then no task has
  run and the cache file is untouched; the root directory plays no part. A per-file
  error does not end the run: \<open>process_file\<close> always returns, logs a file that is
  missing, and for an existing text file either saves a record or logs an error.
\<close>

theorem main_exit_status:
  "(exit_status (main w root_dir output_dir cache_file) \<noteq> 0 \<longleftrightarrow>
      \<not> makedirs_ok w output_dir \<or> \<not> log_file_ok w) \<and>
   (exit_status (main w root_dir output_dir cache_file) \<noteq> 0 \<longrightarrow>
      events_of (main w root_dir output_dir cache_file) = [] \<and>
      cache_file_of cache_file (main w root_dir output_dir cache_file) = cache_file) \<and>
   (\<not> path_exists w p \<longrightarrow> process_file w p mp out = [ErrorLogged p]) \<and>
   (path_exists w p \<and> \<not> is_binary_file w p \<longrightarrow>
      (\<exists>f r. Saved f r \<in> set (process_file w p mp out)) \<or>
      (\<exists>q. ErrorLogged q \<in> set (process_file w p mp out)))"
proof -
  have a: "exit_status (main w root_dir output_dir cache_file) \<noteq> 0 \<longleftrightarrow>
      \<not> makedirs_ok w output_dir \<or> \<not> log_file_ok w"
    by (simp add: main_def Let_def split: prod.splits)
  have b: "events_of (main w root_dir output_dir cache_file) = [] \<and>
      cache_file_of cache_file (main w root_dir output_dir cache_file) = cache_file"
    if "exit_status (main w root_dir output_dir cache_file) \<noteq> 0"
    using that by (cases "main w root_dir output_dir cache_file") simp_all
  have c: "\<not> path_exists w p \<longrightarrow> process_file w p mp out = [ErrorLogged p]"
    by (simp add: process_file_def)
  show ?thesis using a b c process_file_outcome[of w p mp out] by blast
qed

theorem main_exit_status_witness:
  "\<not> makedirs_ok no_output_world ''/out'' \<and>
   exit_status (main no_output_world ''/proj'' ''/out'' (Some py_cache)) \<noteq> 0 \<and>
   events_of (main no_output_world ''/proj'' ''/out'' (Some py_cache)) = [] \<and>
   cache_file_of (Some py_cache) (main no_output_world ''/proj'' ''/out'' (Some py_cache)) = Some py_cache \<and>
   makedirs_ok no_nlp_world ''/out'' \<and> log_file_ok no_nlp_world \<and>
   exit_status (main no_nlp_world ''/proj'' ''/out'' None) = 0 \<and>
   process_file no_nlp_world ''/proj/m/gone.txt'' ''m'' ''/out'' = [ErrorLogged ''/proj/m/gone.txt'']"
proof -
  have h: "\<not> makedirs_ok no_output_world ''/out''" by code_simp
  have g: "makedirs_ok no_nlp_world ''/out'' \<and> log_file_ok no_nlp_world" by code_simp
  have n: "\<not> path_exists no_nlp_world ''/proj/m/gone.txt''" by code_simp
  from main_exit_status[where w = no_output_world and root_dir = "''/proj''"
      and output_dir = "''/out''" and cache_file = "Some py_cache" and p = "''/proj/m/gone.txt''"
      and mp = "''m''" and out = "''/out''"] h
  have a: "exit_status (main no_output_world ''/proj'' ''/out'' (Some py_cache)) \<noteq> 0 \<and>
   events_of (main no_output_world ''/proj'' ''/out'' (Some py_cache)) = [] \<and>
   cache_file_of (Some py_cache) (main no_output_world ''/proj'' ''/out'' (Some py_cache)) = Some py_cache"
    by blast
  from main_exit_status[where w = no_nlp_world and root_dir = "''/proj''"
      and output_dir = "''/out''" and cache_file = None and p = "''/proj/m/gone.txt''"
      and mp = "''m''" and out = "''/out''"] g n
  have b: "exit_status (main no_nlp_world ''/proj'' ''/out'' None) = 0 \<and>
   process_file no_nlp_world ''/proj/m/gone.txt'' ''m'' ''/out'' = [ErrorLogged ''/proj/m/gone.txt'']"
    by blast
  from h g a b show ?thesis by blast
qed

text \<open>
  The claim as stated fails: with a missing root directory the walk is empty and the
  run ends with status 0. And per-file errors are not counted: where the entity
  extractor raises for every file, errors are logged, no record is saved, and the
  count of skipped files is 0.
\<close>

theorem missing_root_exit_counterexample:
  "\<not> path_exists missing_root_world ''/proj'' \<and>
   os_walk missing_root_world ''/proj'' = [] \<and>
   exit_status (main missing_root_world ''/proj'' ''/out'' None) = 0 \<and>
   ErrorLogged ''/proj/m/notes.txt'' \<in> set (events_of (main no_nlp_world ''/proj'' ''/out'' None)) \<and>
   saved_records (events_of (main no_nlp_world ''/proj'' ''/out'' None)) = [] \<and>
   main no_nlp_world ''/proj'' ''/out'' None \<noteq> Aborted \<and>
   run_skipped (result (main no_nlp_world ''/proj'' ''/out'' None)) = 0"
  by code_simp

section \<open>The records a batch saves\<close>













end
